theory Spec2Isabelle
  imports Complex_Main "HOL-Library.Multiset"
begin

section \<open>JavaScript values\<close>

text \<open>
  The gateway is a JavaScript worker. Its guards are written with truthiness tests,
  \<open>typeof\<close> tests and property reads on values that come from JSON, so the values are
  modelled as JSON-shaped JavaScript values. A number is a finite double, idealised as a
  real (arithmetic is exact, there is no infinity and no negative zero), or \<open>NaN\<close>.
\<close>

datatype jsnum = NaN | Num real

datatype jsval =
    JUndefined
  | JNull
  | JBool bool
  | JNum jsnum
  | JStr string
  | JObj "(string \<times> jsval) list"
  | JArr "jsval list"

datatype js_error = TypeError

text \<open>\<open>!!v\<close>: what an \<open>if (v)\<close>, \<open>!v\<close>, \<open>a && b\<close> or \<open>a || b\<close> tests.\<close>

fun truthy :: "jsval \<Rightarrow> bool" where
  "truthy JUndefined = False"
| "truthy JNull = False"
| "truthy (JBool b) = b"
| "truthy (JNum NaN) = False"
| "truthy (JNum (Num r)) = (r \<noteq> 0)"
| "truthy (JStr s) = (s \<noteq> [])"
| "truthy (JObj kvs) = True"
| "truthy (JArr vs) = True"

text \<open>\<open>typeof v === 'number'\<close> and the global \<open>isNaN\<close> on a value that is a number.\<close>

fun typeof_number :: "jsval \<Rightarrow> bool" where
  "typeof_number (JNum n) = True"
| "typeof_number v = False"

fun isNaN :: "jsval \<Rightarrow> bool" where
  "isNaN (JNum NaN) = True"
| "isNaN v = False"

text \<open>
  \<open>v.name\<close> for the property names this program reads (\<open>center\<close>, \<open>lat\<close>, \<open>lon\<close>,
  \<open>radiusMiles\<close>, \<open>access_token\<close> and the fields of an aircraft record): reading a
  property of \<open>undefined\<close> or \<open>null\<close> throws a TypeError; an object yields the property
  or \<open>undefined\<close>; a boolean, a number, a string or an array has none of these names and
  yields \<open>undefined\<close>.
\<close>

fun getProp :: "jsval \<Rightarrow> string \<Rightarrow> js_error + jsval" where
  "getProp JUndefined k = Inl TypeError"
| "getProp JNull k = Inl TypeError"
| "getProp (JObj kvs) k = (case map_of kvs k of Some v \<Rightarrow> Inr v | None \<Rightarrow> Inr JUndefined)"
| "getProp v k = Inr JUndefined"

text \<open>
  ToNumber, applied by the arithmetic and relational operators. The conversion of a
  string, an object or an array is the runtime's (numeric literals parse, everything else
  is \<open>NaN\<close>); it is the parameter \<open>conv\<close>, and every result below holds for any \<open>conv\<close>.
\<close>

fun toNumber :: "(jsval \<Rightarrow> jsnum) \<Rightarrow> jsval \<Rightarrow> jsnum" where
  "toNumber conv JUndefined = NaN"
| "toNumber conv JNull = Num 0"
| "toNumber conv (JBool b) = (if b then Num 1 else Num 0)"
| "toNumber conv (JNum n) = n"
| "toNumber conv v = conv v"

fun js_add :: "jsnum \<Rightarrow> jsnum \<Rightarrow> jsnum" where
  "js_add (Num x) (Num y) = Num (x + y)"
| "js_add a b = NaN"

fun js_sub :: "jsnum \<Rightarrow> jsnum \<Rightarrow> jsnum" where
  "js_sub (Num x) (Num y) = Num (x - y)"
| "js_sub a b = NaN"

fun js_mul :: "jsnum \<Rightarrow> jsnum \<Rightarrow> jsnum" where
  "js_mul (Num x) (Num y) = Num (x * y)"
| "js_mul a b = NaN"

text \<open>Division: the divisors of this program are the literals 2 and 180.\<close>

fun js_div :: "jsnum \<Rightarrow> jsnum \<Rightarrow> jsnum" where
  "js_div (Num x) (Num y) = (if y = 0 then NaN else Num (x / y))"
| "js_div a b = NaN"

text \<open>Relational operators on numbers: every comparison with \<open>NaN\<close> is false.\<close>

fun js_lt :: "jsnum \<Rightarrow> jsnum \<Rightarrow> bool" where
  "js_lt (Num x) (Num y) = (x < y)"
| "js_lt a b = False"

fun js_le :: "jsnum \<Rightarrow> jsnum \<Rightarrow> bool" where
  "js_le (Num x) (Num y) = (x \<le> y)"
| "js_le a b = False"

fun js_gt :: "jsnum \<Rightarrow> jsnum \<Rightarrow> bool" where
  "js_gt (Num x) (Num y) = (x > y)"
| "js_gt a b = False"

fun js_ge :: "jsnum \<Rightarrow> jsnum \<Rightarrow> bool" where
  "js_ge (Num x) (Num y) = (x \<ge> y)"
| "js_ge a b = False"

fun js_abs :: "jsnum \<Rightarrow> jsnum" where
  "js_abs (Num x) = Num \<bar>x\<bar>"
| "js_abs NaN = NaN"

fun js_sin :: "jsnum \<Rightarrow> jsnum" where
  "js_sin (Num x) = Num (sin x)"
| "js_sin NaN = NaN"

fun js_cos :: "jsnum \<Rightarrow> jsnum" where
  "js_cos (Num x) = Num (cos x)"
| "js_cos NaN = NaN"

text \<open>\<open>Math.sqrt\<close> of a negative number is \<open>NaN\<close>.\<close>

fun js_sqrt :: "jsnum \<Rightarrow> jsnum" where
  "js_sqrt (Num x) = (if x < 0 then NaN else Num (sqrt x))"
| "js_sqrt NaN = NaN"

text \<open>\<open>Math.atan2(y, x)\<close>: the angle of the point \<open>(x, y)\<close>, in \<open>(-pi, pi]\<close>.\<close>

definition atan2 :: "real \<Rightarrow> real \<Rightarrow> real" where
  "atan2 y x =
     (if 0 < x then arctan (y / x)
      else if x < 0 then (if 0 \<le> y then arctan (y / x) + pi else arctan (y / x) - pi)
      else if 0 < y then pi / 2
      else if y < 0 then - (pi / 2)
      else 0)"

fun js_atan2 :: "jsnum \<Rightarrow> jsnum \<Rightarrow> jsnum" where
  "js_atan2 (Num y) (Num x) = Num (atan2 y x)"
| "js_atan2 a b = NaN"

section \<open>GeoMath\<close>

text \<open>
  \<open>calculateDistance(lat1, lon1, lat2, lon2)\<close>: the Haversine formula with the Earth's
  radius of 3959 miles. The operands are converted by the arithmetic operators.
\<close>

definition calculateDistance ::
  "(jsval \<Rightarrow> jsnum) \<Rightarrow> jsval \<Rightarrow> jsval \<Rightarrow> jsval \<Rightarrow> jsval \<Rightarrow> jsnum" where
  "calculateDistance conv lat1 lon1 lat2 lon2 =
     (let R = Num 3959;
          dLat = js_div (js_mul (js_sub (toNumber conv lat2) (toNumber conv lat1)) (Num pi)) (Num 180);
          dLon = js_div (js_mul (js_sub (toNumber conv lon2) (toNumber conv lon1)) (Num pi)) (Num 180);
          a = js_add
                (js_mul (js_sin (js_div dLat (Num 2))) (js_sin (js_div dLat (Num 2))))
                (js_mul
                  (js_mul
                    (js_mul (js_cos (js_div (js_mul (toNumber conv lat1) (Num pi)) (Num 180)))
                            (js_cos (js_div (js_mul (toNumber conv lat2) (Num pi)) (Num 180))))
                    (js_sin (js_div dLon (Num 2))))
                  (js_sin (js_div dLon (Num 2))));
          c = js_mul (Num 2) (js_atan2 (js_sqrt a) (js_sqrt (js_sub (Num 1) a)))
      in js_mul R c)"

text \<open>
  \<open>isPointInRegion(latitude, longitude, region)\<close>. The property reads are the ones the
  source makes, in its order, behind its short-circuit guards; a read that would throw is
  the \<open>Inl\<close> branch.
\<close>

definition isPointInRegion ::
  "(jsval \<Rightarrow> jsnum) \<Rightarrow> jsval \<Rightarrow> jsval \<Rightarrow> jsval \<Rightarrow> js_error + bool" where
  "isPointInRegion conv latitude longitude region =
     (if \<not> truthy region then Inr False
      else case getProp region ''center'' of
        Inl e \<Rightarrow> Inl e
      | Inr center \<Rightarrow>
          if \<not> truthy center then Inr False
          else case getProp region ''radiusMiles'' of
            Inl e \<Rightarrow> Inl e
          | Inr radiusMiles \<Rightarrow>
              if \<not> typeof_number radiusMiles then Inr False
              else if \<not> typeof_number latitude \<or> \<not> typeof_number longitude
                      \<or> isNaN latitude \<or> isNaN longitude then Inr False
              else case getProp center ''lat'' of
                Inl e \<Rightarrow> Inl e
              | Inr clat \<Rightarrow>
                  (case getProp center ''lon'' of
                     Inl e \<Rightarrow> Inl e
                   | Inr clon \<Rightarrow>
                       Inr (js_le (calculateDistance conv clat clon latitude longitude)
                                  (toNumber conv radiusMiles))))"

text \<open>
  Map bounds. The only producer is the \<open>/api/map-flights\<close> handler, which builds
  \<open>{north, south, east, west}\<close> from four \<open>parseFloat\<close> results, so each field is a
  number (possibly \<open>NaN\<close>); a missing bounds object is \<open>None\<close>.
\<close>

record bounds =
  north :: jsnum
  south :: jsnum
  east :: jsnum
  west :: jsnum

definition isPointInBounds ::
  "(jsval \<Rightarrow> jsnum) \<Rightarrow> jsval \<Rightarrow> jsval \<Rightarrow> bounds option \<Rightarrow> bool" where
  "isPointInBounds conv latitude longitude bnds =
     (case bnds of
        None \<Rightarrow> False
      | Some b \<Rightarrow>
          if \<not> truthy (JNum (north b)) \<or> \<not> truthy (JNum (south b))
             \<or> \<not> truthy (JNum (east b)) \<or> \<not> truthy (JNum (west b)) then False
          else
            let lonInBounds =
                  (if js_le (west b) (east b)
                   then js_ge (toNumber conv longitude) (west b) \<and> js_le (toNumber conv longitude) (east b)
                   else js_ge (toNumber conv longitude) (west b) \<or> js_le (toNumber conv longitude) (east b))
            in js_ge (toNumber conv latitude) (south b) \<and> js_le (toNumber conv latitude) (north b)
               \<and> lonInBounds)"

text \<open>
  The containment test in the specification's words: latitude in \<open>[south, north]\<close>;
  longitude in \<open>[west, east]\<close> when \<open>west \<le> east\<close>, otherwise in the union of
  \<open>[west, 180]\<close> and \<open>[-180, east]\<close>.
\<close>

definition spec_pointInBounds :: "real \<Rightarrow> real \<Rightarrow> real \<Rightarrow> real \<Rightarrow> real \<Rightarrow> real \<Rightarrow> bool" where
  "spec_pointInBounds lat lon n s e w =
     (s \<le> lat \<and> lat \<le> n \<and>
      (if w \<le> e then w \<le> lon \<and> lon \<le> e
       else (w \<le> lon \<and> lon \<le> 180) \<or> (-180 \<le> lon \<and> lon \<le> e)))"

section \<open>Process-wide state\<close>

definition DEFAULT_REGION :: jsval where
  "DEFAULT_REGION =
     JObj [(''center'', JObj [(''lat'', JNum (Num 33.47582267755572)),
                              (''lon'', JNum (Num (-111.70391851974681)))]),
           (''radiusMiles'', JNum (Num 3))]"

text \<open>Times are \<open>Date.now()\<close> readings: integers, in milliseconds.\<close>

definition MAP_CHANGE_API_INTERVAL :: real where
  "MAP_CHANGE_API_INTERVAL = 3000"

definition TOKEN_EXPIRY_BUFFER :: int where
  "TOKEN_EXPIRY_BUFFER = 5 * 60 * 1000"

definition TOKEN_EXPIRY_TIME :: int where
  "TOKEN_EXPIRY_TIME = 30 * 60 * 1000"

definition FLIGHTS_CACHE_MAX_AGE :: int where
  "FLIGHTS_CACHE_MAX_AGE = 30 * 1000"

definition AIRCRAFT_RECORD_CACHE_MAX_AGE :: int where
  "AIRCRAFT_RECORD_CACHE_MAX_AGE = 60 * 60 * 1000"

text \<open>\<open>tokenCache\<close>: the token is \<open>null\<close> or the \<open>access_token\<close> of the last grant.\<close>

record token_cache =
  token :: jsval
  expiresAt :: int

section \<open>TokenBroker\<close>

text \<open>
  What the token endpoint does with one grant request: the request is rejected (network
  failure), the response is not \<open>ok\<close>, its body is not JSON, or its body parses to a
  value.
\<close>

datatype token_response =
    TokenFetchRejected
  | TokenNotOk
  | TokenBodyUnreadable
  | TokenBody jsval

datatype auth_error =
    TokenRequestFailed
  | TokenStatusError
  | TokenParseError
  | TokenTypeError
  | NoAccessToken

definition clearedTokenCache :: token_cache where
  "clearedTokenCache = \<lparr>token = JNull, expiresAt = 0\<rparr>"

text \<open>
  \<open>getAccessToken(clientId, clientSecret)\<close> at clock reading \<open>now\<close>, against a token
  endpoint that answers \<open>resp\<close>. The result is the returned token or the error thrown,
  the token cache afterwards, and the number of requests sent to the token endpoint.
  The credentials only fill the request body and are left out.
\<close>

definition getAccessToken ::
  "int \<Rightarrow> token_response \<Rightarrow> token_cache \<Rightarrow> (auth_error + jsval) \<times> token_cache \<times> nat" where
  "getAccessToken now resp tc =
     (if truthy (token tc) \<and> expiresAt tc > now + TOKEN_EXPIRY_BUFFER
      then (Inr (token tc), tc, 0)
      else case resp of
        TokenFetchRejected \<Rightarrow> (Inl TokenRequestFailed, clearedTokenCache, 1)
      | TokenNotOk \<Rightarrow> (Inl TokenStatusError, clearedTokenCache, 1)
      | TokenBodyUnreadable \<Rightarrow> (Inl TokenParseError, clearedTokenCache, 1)
      | TokenBody d \<Rightarrow>
          (case getProp d ''access_token'' of
             Inl e \<Rightarrow> (Inl TokenTypeError, clearedTokenCache, 1)
           | Inr accessToken \<Rightarrow>
               if \<not> truthy accessToken then (Inl NoAccessToken, clearedTokenCache, 1)
               else (Inr accessToken,
                     \<lparr>token = accessToken, expiresAt = now + TOKEN_EXPIRY_TIME\<rparr>, 1)))"

section \<open>RateLimiter and the upstream fetch cycle\<close>

text \<open>
  A flight state is the array upstream sends:
  \<open>[icao24, callsign, origin_country, time_position, last_contact, longitude, latitude,
  baro_altitude, on_ground, velocity, heading, vertical_rate, ...]\<close>.
  \<open>flight[i]\<close> beyond the end of the array is \<open>undefined\<close>.
\<close>

type_synonym raw_flight = "jsval list"

definition idx :: "raw_flight \<Rightarrow> nat \<Rightarrow> jsval" where
  "idx flight i = (if i < length flight then flight ! i else JUndefined)"

text \<open>
  What the position feed does with one request: the request is rejected, the response
  is not \<open>ok\<close> (with its status), its body is not a JSON object, or its body parses and
  has the \<open>states\<close> array (\<open>None\<close> when \<open>states\<close> is missing or \<open>null\<close>).
\<close>

datatype feed_response =
    FeedFetchRejected
  | FeedNotOk nat
  | FeedBodyUnreadable
  | FeedBody "raw_flight list option"

text \<open>
  The collaborators' answers during one fetch cycle: the clock read by
  \<open>fetchOpenSkyData\<close>, the clocks read by the first and the second \<open>getAccessToken\<close>,
  the token endpoint's answers to them, and the feed's answers to the request and to the
  retry; then the clock read by the aircraft record lookups, and the clock the handler
  reads for the snapshot (its timestamp on success, its age on fallback).
\<close>

record upstream =
  clock :: int
  tokenClock1 :: int
  grant1 :: token_response
  feed1 :: feed_response
  tokenClock2 :: int
  grant2 :: token_response
  feed2 :: feed_response
  lookupClock :: int
  handlerClock :: int

record rate_limiter =
  lastApiCall :: int
  lastMapChangeApiCall :: int
  API_CALL_INTERVAL :: real
  tokenCache :: token_cache

definition markCall :: "bool \<Rightarrow> int \<Rightarrow> rate_limiter \<Rightarrow> rate_limiter" where
  "markCall isMapChange now st =
     (if isMapChange then st\<lparr>lastMapChangeApiCall := now\<rparr> else st\<lparr>lastApiCall := now\<rparr>)"

definition statesOrEmpty :: "raw_flight list option \<Rightarrow> raw_flight list" where
  "statesOrEmpty states = (case states of None \<Rightarrow> [] | Some fs \<Rightarrow> fs)"

text \<open>
  \<open>fetchOpenSkyData(clientId, clientSecret, isMapChange)\<close>: \<open>None\<close> is the \<open>null\<close> it
  returns when the gate is closed or the \<open>catch\<close> block runs. The timestamp is written
  after the awaited feed request has answered, so it is reached only if neither
  \<open>getAccessToken\<close> nor the feed request threw.
\<close>

definition fetchOpenSkyData ::
  "upstream \<Rightarrow> bool \<Rightarrow> rate_limiter \<Rightarrow> raw_flight list option \<times> rate_limiter" where
  "fetchOpenSkyData w isMapChange st =
     (let now = clock w;
          rateLimitInterval = (if isMapChange then MAP_CHANGE_API_INTERVAL else API_CALL_INTERVAL st);
          lastCallTime = (if isMapChange then lastMapChangeApiCall st else lastApiCall st)
      in if real_of_int (now - lastCallTime) < rateLimitInterval then (None, st)
         else case getAccessToken (tokenClock1 w) (grant1 w) (tokenCache st) of
           (Inl e, tc1, n1) \<Rightarrow> (None, st\<lparr>tokenCache := tc1\<rparr>)
         | (Inr accessToken, tc1, n1) \<Rightarrow>
             (case feed1 w of
                FeedFetchRejected \<Rightarrow> (None, st\<lparr>tokenCache := tc1\<rparr>)
              | FeedBody states \<Rightarrow>
                  (Some (statesOrEmpty states), markCall isMapChange now (st\<lparr>tokenCache := tc1\<rparr>))
              | FeedBodyUnreadable \<Rightarrow>
                  (None, markCall isMapChange now (st\<lparr>tokenCache := tc1\<rparr>))
              | FeedNotOk status \<Rightarrow>
                  if status = 401 then
                    (case getAccessToken (tokenClock2 w) (grant2 w) clearedTokenCache of
                       (Inl e, tc2, n2) \<Rightarrow>
                         (None, markCall isMapChange now (st\<lparr>tokenCache := tc2\<rparr>))
                     | (Inr newToken, tc2, n2) \<Rightarrow>
                         (case feed2 w of
                            FeedBody states \<Rightarrow>
                              (Some (statesOrEmpty states),
                               markCall isMapChange now (st\<lparr>tokenCache := tc2\<rparr>))
                          | other \<Rightarrow>
                              (None, markCall isMapChange now (st\<lparr>tokenCache := tc2\<rparr>))))
                  else (None, markCall isMapChange now (st\<lparr>tokenCache := tc1\<rparr>))))"

text \<open>\<open>shouldCall\<close>: the gate \<open>fetchOpenSkyData\<close> tests first.\<close>

definition gateOpen :: "int \<Rightarrow> bool \<Rightarrow> rate_limiter \<Rightarrow> bool" where
  "gateOpen now isMapChange st =
     (\<not> real_of_int (now - (if isMapChange then lastMapChangeApiCall st else lastApiCall st))
          < (if isMapChange then MAP_CHANGE_API_INTERVAL else API_CALL_INTERVAL st))"

section \<open>AircraftRecordCache\<close>

text \<open>
  A cache entry \<open>{ data, timestamp }\<close>; \<open>data\<close> is the parsed record, or \<open>null\<close> for a
  key the store does not have.
\<close>

record cache_entry =
  data :: jsval
  timestamp :: int

text \<open>
  \<open>aircraftRecordCache.records\<close> is a plain object used as a dictionary. It is kept as
  the list of its properties in the order they were created, each key once.
  \<open>Object.keys\<close> lists the keys that are array indices first, in ascending numeric
  order, then the other keys in creation order.
\<close>

type_synonym record_object = "(string \<times> cache_entry) list"

definition is_digit :: "char \<Rightarrow> bool" where
  "is_digit c = (48 \<le> (of_char c :: nat) \<and> (of_char c :: nat) \<le> 57)"

definition dec_val :: "string \<Rightarrow> nat" where
  "dec_val s = foldl (\<lambda>acc c. 10 * acc + ((of_char c :: nat) - 48)) 0 s"

definition array_index :: "string \<Rightarrow> nat option" where
  "array_index s =
     (if s \<noteq> [] \<and> list_all is_digit s \<and> (s = ''0'' \<or> hd s \<noteq> CHR ''0'')
         \<and> dec_val s < 2 ^ 32 - 1
      then Some (dec_val s) else None)"

definition object_entries :: "record_object \<Rightarrow> (string \<times> cache_entry) list" where
  "object_entries obj =
     sort_key (\<lambda>(k, e). case array_index k of Some i \<Rightarrow> i | None \<Rightarrow> 0)
       (filter (\<lambda>(k, e). array_index k \<noteq> None) obj)
     @ filter (\<lambda>(k, e). array_index k = None) obj"

definition object_keys :: "record_object \<Rightarrow> string list" where
  "object_keys obj = map fst (object_entries obj)"

text \<open>\<open>obj[k] = e\<close>: an existing property keeps its place, a new one is created last.\<close>

definition object_set :: "record_object \<Rightarrow> string \<Rightarrow> cache_entry \<Rightarrow> record_object" where
  "object_set obj k e =
     (if map_of obj k = None then obj @ [(k, e)]
      else map (\<lambda>(k', e'). if k' = k then (k', e) else (k', e')) obj)"

definition object_delete :: "record_object \<Rightarrow> string \<Rightarrow> record_object" where
  "object_delete obj k = filter (\<lambda>(k', e'). k' \<noteq> k) obj"

record record_cache =
  records :: record_object
  maxSize :: nat

definition initialRecordCache :: record_cache where
  "initialRecordCache = \<lparr>records = [], maxSize = 1000\<rparr>"

text \<open>
  What the object store does with \<open>get(objectKey)\<close> and the reads that follow it: the
  \<open>get\<close> is rejected, there is no such object, the object's text cannot be read or is
  not JSON, or it parses to a value.
\<close>

datatype r2_result =
    R2Rejected
  | R2Absent
  | R2Unparsable
  | R2Parsed jsval

type_synonym r2_bucket = "string \<Rightarrow> r2_result"

text \<open>\<open>String.prototype.toLowerCase\<close>, on the ASCII letters.\<close>

definition lower_char :: "char \<Rightarrow> char" where
  "lower_char c =
     (case map_of (zip ''ABCDEFGHIJKLMNOPQRSTUVWXYZ'' ''abcdefghijklmnopqrstuvwxyz'') c of
        Some l \<Rightarrow> l
      | None \<Rightarrow> c)"

definition toLowerCase :: "string \<Rightarrow> string" where
  "toLowerCase s = map lower_char s"

definition objectKeyOf :: "string \<Rightarrow> string" where
  "objectKeyOf normalizedIcao24 = ''aircraft/'' @ normalizedIcao24 @ ''.json''"

text \<open>
  The eviction step of the found path: \<open>Math.floor(cacheKeys.length * 0.1)\<close> entries,
  taken from the front of the keys sorted by timestamp (a stable sort), are deleted.
  For the lengths a cache can reach, the floating-point product floors to
  \<open>length div 10\<close>.
\<close>

definition sortedByTime :: "record_object \<Rightarrow> (string \<times> int) list" where
  "sortedByTime obj =
     (let cacheKeys = object_entries obj;
          entriesToRemove = length cacheKeys div 10
      in take entriesToRemove (sort_key snd (map (\<lambda>(k, e). (k, timestamp e)) cacheKeys)))"

definition evictOldest :: "record_object \<Rightarrow> record_object" where
  "evictOldest obj = foldl (\<lambda>remaining (k, t). object_delete remaining k) obj (sortedByTime obj)"

text \<open>
  The \<open>try\<close> block of \<open>getAircraftInfoOnDemand\<close>, entered on a cache miss or an expired
  entry. The third component is the list of object keys requested from the store.
\<close>

definition fetchAircraftRecord ::
  "r2_bucket \<Rightarrow> string \<Rightarrow> int \<Rightarrow> record_cache \<Rightarrow> jsval \<times> record_cache \<times> string list" where
  "fetchAircraftRecord bucket normalizedIcao24 now cache =
     (let objectKey = objectKeyOf normalizedIcao24 in
      case bucket objectKey of
        R2Rejected \<Rightarrow> (JNull, cache, [objectKey])
      | R2Absent \<Rightarrow>
          (JNull,
           cache\<lparr>records := object_set (records cache) normalizedIcao24
                                \<lparr>data = JNull, timestamp = now\<rparr>\<rparr>,
           [objectKey])
      | R2Unparsable \<Rightarrow> (JNull, cache, [objectKey])
      | R2Parsed aircraftInfo \<Rightarrow>
          (let cacheKeys = object_keys (records cache);
               kept = (if length cacheKeys \<ge> maxSize cache
                          \<and> map_of (records cache) normalizedIcao24 = None
                       then evictOldest (records cache)
                       else records cache)
           in (aircraftInfo,
               cache\<lparr>records := object_set kept normalizedIcao24
                                    \<lparr>data = aircraftInfo, timestamp = now\<rparr>\<rparr>,
               [objectKey])))"

text \<open>
  \<open>getAircraftInfoOnDemand(r2Bucket, icao24)\<close> at clock reading \<open>now\<close>, in two parts.
  \<open>lookupStart\<close> is what runs up to the first \<open>await\<close>, for a bucket that is bound: a
  falsy \<open>icao24\<close> returns \<open>null\<close>; \<open>icao24.toLowerCase()\<close> stands outside the \<open>try\<close>
  and throws on a truthy value that is not a string; a fresh cache entry is returned;
  otherwise the store is asked (\<open>fetchAircraftRecord\<close>, above).
\<close>

datatype lookup_start = Hit jsval | Miss string | Thrown

definition lookupStart :: "jsval \<Rightarrow> int \<Rightarrow> record_cache \<Rightarrow> lookup_start" where
  "lookupStart icao24 now cache =
     (if \<not> truthy icao24 then Hit JNull
      else case icao24 of
        JStr s \<Rightarrow>
          (let normalizedIcao24 = toLowerCase s in
           case map_of (records cache) normalizedIcao24 of
             None \<Rightarrow> Miss normalizedIcao24
           | Some cached \<Rightarrow>
               if now - timestamp cached < AIRCRAFT_RECORD_CACHE_MAX_AGE
               then Hit (data cached)
               else Miss normalizedIcao24)
      | other \<Rightarrow> Thrown)"

definition getAircraftInfoOnDemand ::
  "r2_bucket option \<Rightarrow> jsval \<Rightarrow> int \<Rightarrow> record_cache
     \<Rightarrow> (js_error + jsval) \<times> record_cache \<times> string list" where
  "getAircraftInfoOnDemand r2Bucket icao24 now cache =
     (case r2Bucket of
        None \<Rightarrow> (Inr JNull, cache, [])
      | Some bucket \<Rightarrow>
          (case lookupStart icao24 now cache of
             Hit v \<Rightarrow> (Inr v, cache, [])
           | Thrown \<Rightarrow> (Inl TypeError, cache, [])
           | Miss normalizedIcao24 \<Rightarrow>
               (case fetchAircraftRecord bucket normalizedIcao24 now cache of
                  (v, cache', gets) \<Rightarrow> (Inr v, cache', gets))))"

section \<open>FlightGateway\<close>

record flightData =
  icao24 :: jsval
  callsign :: jsval
  origin :: string
  destination :: string
  latitude :: jsval
  longitude :: jsval
  baroAltitude :: jsval
  velocity :: jsval
  heading :: jsval
  verticalRate :: jsval
  inRegion :: bool
  registration :: jsval
  aircraftType :: jsval
  owner :: jsval
  operator :: jsval
  manufacturer :: jsval
  model :: jsval
  serialNumber :: jsval
  operatorCallsign :: jsval
  built :: jsval

text \<open>
  \<open>getAirportInfo(icao24, callsign)\<close>: \<open>callsign.substring(0, 4)\<close> is a method of
  strings only; on another truthy value the call throws.
\<close>

definition getAirportInfo :: "jsval \<Rightarrow> jsval \<Rightarrow> js_error + string \<times> string" where
  "getAirportInfo flightIcao flightCallsign =
     (if truthy flightCallsign
      then (case flightCallsign of
              JStr s \<Rightarrow> Inr (take 4 s, ''Unknown'')
            | other \<Rightarrow> Inl TypeError)
      else Inr (''Unknown'', ''Unknown''))"

text \<open>The \<open>flightData\<close> object literal, before enrichment (absent fields are \<open>undefined\<close>).\<close>

definition makeFlightData :: "raw_flight \<Rightarrow> string \<times> string \<Rightarrow> bool \<Rightarrow> flightData" where
  "makeFlightData flight airportInfo isIn =
     \<lparr>icao24 = idx flight 0,
      callsign = (if truthy (idx flight 1) then idx flight 1 else JNull),
      origin = fst airportInfo,
      destination = snd airportInfo,
      latitude = idx flight 6,
      longitude = idx flight 5,
      baroAltitude = idx flight 7,
      velocity = idx flight 9,
      heading = idx flight 10,
      verticalRate = idx flight 11,
      inRegion = isIn,
      registration = JUndefined,
      aircraftType = JUndefined,
      owner = JUndefined,
      operator = JUndefined,
      manufacturer = JUndefined,
      model = JUndefined,
      serialNumber = JUndefined,
      operatorCallsign = JUndefined,
      built = JUndefined\<rparr>"

text \<open>
  \<open>if (aircraftInfo.name) flightData.field = aircraftInfo.name\<close>, under the guard
  \<open>if (aircraftInfo)\<close>, which makes the property read safe.
\<close>

definition truthyProp :: "jsval \<Rightarrow> string \<Rightarrow> jsval option" where
  "truthyProp info k =
     (case getProp info k of
        Inr v \<Rightarrow> if truthy v then Some v else None
      | Inl e \<Rightarrow> None)"

definition setIfTruthy ::
  "jsval \<Rightarrow> string \<Rightarrow> (jsval \<Rightarrow> flightData \<Rightarrow> flightData) \<Rightarrow> flightData \<Rightarrow> flightData" where
  "setIfTruthy info k assign fd =
     (case truthyProp info k of Some v \<Rightarrow> assign v fd | None \<Rightarrow> fd)"

definition enrich :: "jsval \<Rightarrow> flightData \<Rightarrow> flightData" where
  "enrich aircraftInfo fd0 =
     (if \<not> truthy aircraftInfo then fd0
      else
        let fd1 = setIfTruthy aircraftInfo ''registration'' (\<lambda>v d. d\<lparr>registration := v\<rparr>) fd0;
            fd2 = setIfTruthy aircraftInfo ''typecode'' (\<lambda>v d. d\<lparr>aircraftType := v\<rparr>) fd1;
            fd3 = setIfTruthy aircraftInfo ''owner'' (\<lambda>v d. d\<lparr>owner := v\<rparr>) fd2;
            fd4 = setIfTruthy aircraftInfo ''operator'' (\<lambda>v d. d\<lparr>operator := v\<rparr>) fd3;
            fd5 = setIfTruthy aircraftInfo ''manufacturerName'' (\<lambda>v d. d\<lparr>manufacturer := v\<rparr>) fd4;
            fd6 = setIfTruthy aircraftInfo ''model'' (\<lambda>v d. d\<lparr>model := v\<rparr>) fd5;
            fd7 = setIfTruthy aircraftInfo ''serialNumber'' (\<lambda>v d. d\<lparr>serialNumber := v\<rparr>) fd6;
            fd8 = setIfTruthy aircraftInfo ''operatorCallsign'' (\<lambda>v d. d\<lparr>operatorCallsign := v\<rparr>) fd7
        in setIfTruthy aircraftInfo ''built'' (\<lambda>v d. d\<lparr>built := v\<rparr>) fd8)"

text \<open>
  \<open>processFlights(flights, r2Bucket)\<close>, the single-flight scan, against the monitoring
  region \<open>region\<close>: the first airborne report with a truthy position inside the region,
  enriched. The result is the flight (or \<open>null\<close>) or the error thrown, the record cache
  afterwards, and the object keys requested from the store. Without a bucket binding the
  lookup is skipped and the record is \<open>null\<close>, which is what
  \<open>getAircraftInfoOnDemand\<close> returns for \<open>None\<close>.
\<close>

fun processFlights ::
  "(jsval \<Rightarrow> jsnum) \<Rightarrow> r2_bucket option \<Rightarrow> int \<Rightarrow> jsval \<Rightarrow> record_cache \<Rightarrow> raw_flight list
     \<Rightarrow> (js_error + flightData option) \<times> record_cache \<times> string list" where
  "processFlights conv r2Bucket now region cache [] = (Inr None, cache, [])"
| "processFlights conv r2Bucket now region cache (flight # rest) =
     (let lat = idx flight 6;
          lon = idx flight 5;
          onGround = idx flight 8
      in if onGround = JBool True then processFlights conv r2Bucket now region cache rest
         else if truthy lat \<and> truthy lon then
           (case isPointInRegion conv lat lon region of
              Inl e \<Rightarrow> (Inl e, cache, [])
            | Inr isIn \<Rightarrow>
                if isIn then
                  (case getAirportInfo (idx flight 0) (idx flight 1) of
                     Inl e \<Rightarrow> (Inl e, cache, [])
                   | Inr airportInfo \<Rightarrow>
                       (case getAircraftInfoOnDemand r2Bucket (idx flight 0) now cache of
                          (Inl e, cache', gets) \<Rightarrow> (Inl e, cache', gets)
                        | (Inr aircraftInfo, cache', gets) \<Rightarrow>
                            (Inr (Some (enrich aircraftInfo (makeFlightData flight airportInfo True))),
                             cache', gets)))
                else processFlights conv r2Bucket now region cache rest)
         else processFlights conv r2Bucket now region cache rest)"

text \<open>
  \<open>processMultipleFlights\<close>, first pass: the airborne reports with a truthy position
  that lie in the map bounds (or, without bounds, in the monitoring region), in upstream
  order, until \<open>maxFlights\<close> are collected. \<open>selected\<close> is \<open>flightsInBounds\<close> so far.
\<close>

fun firstPass ::
  "(jsval \<Rightarrow> jsnum) \<Rightarrow> nat \<Rightarrow> bounds option \<Rightarrow> jsval \<Rightarrow> flightData list \<Rightarrow> raw_flight list
     \<Rightarrow> js_error + flightData list" where
  "firstPass conv maxFlights bnds region selected [] = Inr selected"
| "firstPass conv maxFlights bnds region selected (flight # rest) =
     (let lat = idx flight 6;
          lon = idx flight 5;
          onGround = idx flight 8
      in if onGround = JBool True then firstPass conv maxFlights bnds region selected rest
         else if truthy lat \<and> truthy lon then
           (case isPointInRegion conv lat lon region of
              Inl e \<Rightarrow> Inl e
            | Inr isIn \<Rightarrow>
                (let inArea = (if bnds \<noteq> None then isPointInBounds conv lat lon bnds else isIn)
                 in if inArea then
                      (case getAirportInfo (idx flight 0) (idx flight 1) of
                         Inl e \<Rightarrow> Inl e
                       | Inr airportInfo \<Rightarrow>
                           (let selected' = selected @ [makeFlightData flight airportInfo isIn]
                            in if length selected' \<ge> maxFlights then Inr selected'
                               else firstPass conv maxFlights bnds region selected' rest))
                    else firstPass conv maxFlights bnds region selected rest))
         else firstPass conv maxFlights bnds region selected rest)"

text \<open>
  Second pass. The lookups are started together, so each one's cache test
  (\<open>lookupStart\<close>) reads the cache as it was before any of them; the store requests of
  the misses then complete, here in the order they were issued, each writing the cache
  the previous one left. \<open>Promise.all\<close> rejects if a lookup threw.
\<close>

fun joinLookups ::
  "r2_bucket \<Rightarrow> int \<Rightarrow> lookup_start list \<Rightarrow> record_cache
     \<Rightarrow> (js_error + jsval) list \<times> record_cache \<times> string list" where
  "joinLookups bucket now [] cache = ([], cache, [])"
| "joinLookups bucket now (Hit v # rest) cache =
     (case joinLookups bucket now rest cache of
        (vs, cache', gets) \<Rightarrow> (Inr v # vs, cache', gets))"
| "joinLookups bucket now (Thrown # rest) cache =
     (case joinLookups bucket now rest cache of
        (vs, cache', gets) \<Rightarrow> (Inl TypeError # vs, cache', gets))"
| "joinLookups bucket now (Miss k # rest) cache =
     (case fetchAircraftRecord bucket k now cache of
        (v, cache1, gets1) \<Rightarrow>
          (case joinLookups bucket now rest cache1 of
             (vs, cache', gets) \<Rightarrow> (Inr v # vs, cache', gets1 @ gets)))"

text \<open>\<open>flightData.icao24?.toLowerCase()\<close>: \<open>undefined\<close> for a nullish value.\<close>

definition lowerOpt :: "jsval \<Rightarrow> js_error + string option" where
  "lowerOpt v =
     (case v of
        JUndefined \<Rightarrow> Inr None
      | JNull \<Rightarrow> Inr None
      | JStr s \<Rightarrow> Inr (Some (toLowerCase s))
      | other \<Rightarrow> Inl TypeError)"

text \<open>The enrichment loop over \<open>flightsInBounds\<close>, with \<open>infoMap\<close> as a lookup function.\<close>

fun enrichAll :: "(string \<Rightarrow> jsval option) \<Rightarrow> flightData list \<Rightarrow> js_error + flightData list" where
  "enrichAll infoMap [] = Inr []"
| "enrichAll infoMap (fd # rest) =
     (case lowerOpt (icao24 fd) of
        Inl e \<Rightarrow> Inl e
      | Inr key \<Rightarrow>
          (let aircraftInfo = (case key of None \<Rightarrow> JUndefined
                               | Some k \<Rightarrow> (case infoMap k of None \<Rightarrow> JUndefined | Some v \<Rightarrow> v))
           in case enrichAll infoMap rest of
                Inl e \<Rightarrow> Inl e
              | Inr rest' \<Rightarrow> Inr (enrich aircraftInfo fd # rest')))"

definition firstError :: "(js_error + 'a) list \<Rightarrow> js_error option" where
  "firstError rs = (case filter isl rs of [] \<Rightarrow> None | r # others \<Rightarrow> Some (projl r))"

definition processMultipleFlights ::
  "(jsval \<Rightarrow> jsnum) \<Rightarrow> raw_flight list \<Rightarrow> nat \<Rightarrow> bounds option \<Rightarrow> r2_bucket option \<Rightarrow> int
     \<Rightarrow> jsval \<Rightarrow> record_cache \<Rightarrow> (js_error + flightData list) \<times> record_cache \<times> string list" where
  "processMultipleFlights conv states maxFlights bnds r2Bucket now region cache =
     (case firstPass conv maxFlights bnds region [] states of
        Inl e \<Rightarrow> (Inl e, cache, [])
      | Inr flightsInBounds \<Rightarrow>
          (case r2Bucket of
             None \<Rightarrow> (Inr flightsInBounds, cache, [])
           | Some bucket \<Rightarrow>
               (let icao24sToLookup = filter truthy (map icao24 flightsInBounds) in
                if icao24sToLookup = [] then (Inr flightsInBounds, cache, [])
                else
                  (case joinLookups bucket now
                          (map (\<lambda>i. lookupStart i now cache) icao24sToLookup) cache of
                     (lookupResults, cache', gets) \<Rightarrow>
                       (case firstError lookupResults of
                          Some e \<Rightarrow> (Inl e, cache', gets)
                        | None \<Rightarrow>
                            (let infoMap = map_of (rev (zip
                                    (map (\<lambda>i. case i of JStr s \<Rightarrow> toLowerCase s | other \<Rightarrow> [])
                                         icao24sToLookup)
                                    (map projr lookupResults)))
                             in (enrichAll infoMap flightsInBounds, cache', gets)))))))"

section \<open>Request handlers\<close>

record flights_cache =
  flights :: "flightData list"
  flightsTimestamp :: int
  flightsBounds :: "bounds option"

record gateway =
  limiter :: rate_limiter
  MONITORING_REGION :: jsval
  lastFlightsCache :: flights_cache
  aircraftRecordCache :: record_cache

definition initialGateway :: gateway where
  "initialGateway =
     \<lparr>limiter = \<lparr>lastApiCall = 0, lastMapChangeApiCall = 0, API_CALL_INTERVAL = 30000,
                  tokenCache = clearedTokenCache\<rparr>,
      MONITORING_REGION = DEFAULT_REGION,
      lastFlightsCache = \<lparr>flights = [], flightsTimestamp = 0, flightsBounds = None\<rparr>,
      aircraftRecordCache = initialRecordCache\<rparr>"

text \<open>The worker's bindings: the two credentials (\<open>''\<close> when unset) and the bucket.\<close>

record bindings =
  OPENSKY_CLIENT_ID :: string
  OPENSKY_CLIENT_SECRET :: string
  AIRCRAFT_DB :: "r2_bucket option"

datatype check_response = CheckNotConfigured | CheckFlight "flightData option"

text \<open>\<open>GET /api/check-flights\<close> (\<open>USE_SYNTHETIC_DATA\<close> is \<open>false\<close>).\<close>

definition checkFlights ::
  "(jsval \<Rightarrow> jsnum) \<Rightarrow> bindings \<Rightarrow> upstream \<Rightarrow> gateway \<Rightarrow> (js_error + check_response) \<times> gateway" where
  "checkFlights conv env w g =
     (if OPENSKY_CLIENT_ID env = [] \<or> OPENSKY_CLIENT_SECRET env = [] then (Inr CheckNotConfigured, g)
      else case fetchOpenSkyData w False (limiter g) of
        (None, rl) \<Rightarrow> (Inr (CheckFlight None), g\<lparr>limiter := rl\<rparr>)
      | (Some states, rl) \<Rightarrow>
          (case processFlights conv (AIRCRAFT_DB env) (lookupClock w) (MONITORING_REGION g)
                  (aircraftRecordCache g) states of
             (Inl e, cache, gets) \<Rightarrow> (Inl e, g\<lparr>limiter := rl, aircraftRecordCache := cache\<rparr>)
           | (Inr None, cache, gets) \<Rightarrow>
               (Inr (CheckFlight None), g\<lparr>limiter := rl, aircraftRecordCache := cache\<rparr>)
           | (Inr (Some flight), cache, gets) \<Rightarrow>
               (case isPointInRegion conv (latitude flight) (longitude flight) (MONITORING_REGION g) of
                  Inl e \<Rightarrow> (Inl e, g\<lparr>limiter := rl, aircraftRecordCache := cache\<rparr>)
                | Inr verifiedInRegion \<Rightarrow>
                    (Inr (CheckFlight (if verifiedInRegion then Some flight else None)),
                     g\<lparr>limiter := rl, aircraftRecordCache := cache\<rparr>))))"

text \<open>
  The query of \<open>GET /api/map-flights\<close>: each parameter is absent or a string.
  \<open>parseFloat\<close> is the runtime's and is a parameter.
\<close>

record map_query =
  q_north :: "string option"
  q_south :: "string option"
  q_east :: "string option"
  q_west :: "string option"
  q_mapChanged :: "string option"

definition present :: "string option \<Rightarrow> bool" where
  "present p = (case p of None \<Rightarrow> False | Some s \<Rightarrow> s \<noteq> [])"

definition paramOr :: "string option \<Rightarrow> string" where
  "paramOr p = (case p of None \<Rightarrow> [] | Some s \<Rightarrow> s)"

definition queryBounds :: "(string \<Rightarrow> jsnum) \<Rightarrow> map_query \<Rightarrow> bounds option" where
  "queryBounds parseFloat q =
     (if present (q_north q) \<and> present (q_south q) \<and> present (q_east q) \<and> present (q_west q)
      then Some \<lparr>north = parseFloat (paramOr (q_north q)), south = parseFloat (paramOr (q_south q)),
                 east = parseFloat (paramOr (q_east q)), west = parseFloat (paramOr (q_west q))\<rparr>
      else None)"

text \<open>
  The fallback of the map handler, taken when \<open>fetchOpenSkyData\<close> returned \<open>null\<close>:
  \<open>flights\<close> stays \<open>[]\<close> unless the snapshot is non-empty, younger than
  \<open>FLIGHTS_CACHE_MAX_AGE\<close> and \<open>boundsMatch\<close> holds.
\<close>

definition boundsMatch :: "bounds option \<Rightarrow> bounds option \<Rightarrow> bool" where
  "boundsMatch bnds cached =
     (case bnds of
        None \<Rightarrow> True
      | Some b \<Rightarrow>
          (case cached of
             None \<Rightarrow> True
           | Some cb \<Rightarrow>
               js_lt (js_abs (js_sub (north b) (north cb))) (Num 1)
               \<and> js_lt (js_abs (js_sub (south b) (south cb))) (Num 1)
               \<and> js_lt (js_abs (js_sub (east b) (east cb))) (Num 1)
               \<and> js_lt (js_abs (js_sub (west b) (west cb))) (Num 1)))"

definition fallbackFlights :: "bounds option \<Rightarrow> flights_cache \<Rightarrow> int \<Rightarrow> flightData list" where
  "fallbackFlights bnds fc now =
     (let cacheAge = now - flightsTimestamp fc in
      if length (flights fc) > 0 \<and> cacheAge < FLIGHTS_CACHE_MAX_AGE
      then (if boundsMatch bnds (flightsBounds fc) then flights fc else [])
      else [])"

datatype map_response = MapNotConfigured | MapFlights "flightData list"

text \<open>\<open>GET /api/map-flights\<close> (\<open>USE_SYNTHETIC_DATA\<close> is \<open>false\<close>).\<close>

definition mapFlights ::
  "(jsval \<Rightarrow> jsnum) \<Rightarrow> (string \<Rightarrow> jsnum) \<Rightarrow> bindings \<Rightarrow> map_query \<Rightarrow> upstream \<Rightarrow> gateway
     \<Rightarrow> (js_error + map_response) \<times> gateway" where
  "mapFlights conv parseFloat env q w g =
     (let bnds = queryBounds parseFloat q in
      if OPENSKY_CLIENT_ID env = [] \<or> OPENSKY_CLIENT_SECRET env = [] then (Inr MapNotConfigured, g)
      else
        let mapChanged = (q_mapChanged q = Some ''true'') in
        case fetchOpenSkyData w mapChanged (limiter g) of
          (Some openSkyFlights, rl) \<Rightarrow>
            (case processMultipleFlights conv openSkyFlights 50 bnds (AIRCRAFT_DB env) (lookupClock w)
                    (MONITORING_REGION g) (aircraftRecordCache g) of
               (Inl e, cache, gets) \<Rightarrow> (Inl e, g\<lparr>limiter := rl, aircraftRecordCache := cache\<rparr>)
             | (Inr found, cache, gets) \<Rightarrow>
                 (Inr (MapFlights found),
                  g\<lparr>limiter := rl, aircraftRecordCache := cache,
                    lastFlightsCache := \<lparr>flights = found, flightsTimestamp = handlerClock w,
                                          flightsBounds = bnds\<rparr>\<rparr>))
        | (None, rl) \<Rightarrow>
            (Inr (MapFlights (fallbackFlights bnds (lastFlightsCache g) (handlerClock w))),
             g\<lparr>limiter := rl\<rparr>))"

text \<open>
  \<open>POST /api/region\<close>. The body is \<open>None\<close> when \<open>request.json()\<close> throws. The response
  is the new region (status 200) or a 400 with its message; the second component is
  \<open>MONITORING_REGION\<close> afterwards.
\<close>

datatype region_response = RegionUpdated jsval | RegionRejected string

definition statusOf :: "region_response \<Rightarrow> nat" where
  "statusOf r = (case r of RegionUpdated v \<Rightarrow> 200 | RegionRejected m \<Rightarrow> 400)"

definition postRegion :: "(jsval \<Rightarrow> jsnum) \<Rightarrow> jsval option \<Rightarrow> jsval \<Rightarrow> region_response \<times> jsval" where
  "postRegion conv body region =
     (case body of
        None \<Rightarrow> (RegionRejected ''Failed to parse request'', region)
      | Some b \<Rightarrow>
          (case getProp b ''center'' of
             Inl e \<Rightarrow> (RegionRejected ''Failed to parse request'', region)
           | Inr center \<Rightarrow>
               (case getProp b ''radiusMiles'' of
                  Inl e \<Rightarrow> (RegionRejected ''Failed to parse request'', region)
                | Inr radiusMiles \<Rightarrow>
                    if \<not> truthy center then (RegionRejected ''Invalid center'', region)
                    else
                      (case getProp center ''lat'' of
                         Inl e \<Rightarrow> (RegionRejected ''Failed to parse request'', region)
                       | Inr lat \<Rightarrow>
                           (case getProp center ''lon'' of
                              Inl e \<Rightarrow> (RegionRejected ''Failed to parse request'', region)
                            | Inr lon \<Rightarrow>
                                if \<not> typeof_number lat \<or> \<not> typeof_number lon
                                then (RegionRejected ''Invalid center'', region)
                                else if js_lt (toNumber conv lat) (Num (-90)) \<or> js_gt (toNumber conv lat) (Num 90)
                                        \<or> js_lt (toNumber conv lon) (Num (-180)) \<or> js_gt (toNumber conv lon) (Num 180)
                                then (RegionRejected ''Invalid coordinates'', region)
                                else
                                  (let radius = (if truthy radiusMiles then radiusMiles else JNum (Num 3)) in
                                   if js_le (toNumber conv radius) (Num 0) \<or> js_gt (toNumber conv radius) (Num 100)
                                   then (RegionRejected ''Invalid radius'', region)
                                   else
                                     (let newRegion = JObj [(''center'', JObj [(''lat'', lat), (''lon'', lon)]),
                                                            (''radiusMiles'', radius)]
                                      in (RegionUpdated newRegion, newRegion))))))))"

text \<open>The Region invariant of the data model, on numbers.\<close>

definition regionInvariant :: "real \<Rightarrow> real \<Rightarrow> real \<Rightarrow> bool" where
  "regionInvariant lat lon radiusMiles =
     (-90 \<le> lat \<and> lat \<le> 90 \<and> -180 \<le> lon \<and> lon \<le> 180 \<and> 0 < radiusMiles \<and> radiusMiles \<le> 100)"

definition regionBody :: "real \<Rightarrow> real \<Rightarrow> real \<Rightarrow> jsval" where
  "regionBody lat lon radiusMiles =
     JObj [(''center'', JObj [(''lat'', JNum (Num lat)), (''lon'', JNum (Num lon))]),
           (''radiusMiles'', JNum (Num radiusMiles))]"

section \<open>The Haversine distance, in the specification's words\<close>

text \<open>
  The great-circle distance in miles between two points given in degrees, by the
  Haversine formula \<open>d = 2 R arcsin (sqrt h)\<close> with
  \<open>h = sin\<^sup>2 (\<Delta>lat / 2) + cos lat1 cos lat2 sin\<^sup>2 (\<Delta>lon / 2)\<close> and the Earth radius
  \<open>R = 3959\<close> miles.
\<close>

definition degToRad :: "real \<Rightarrow> real" where
  "degToRad d = d * pi / 180"

definition haversineTerm :: "real \<Rightarrow> real \<Rightarrow> real \<Rightarrow> real \<Rightarrow> real" where
  "haversineTerm lat1 lon1 lat2 lon2 =
     (sin ((degToRad lat2 - degToRad lat1) / 2))\<^sup>2
     + cos (degToRad lat1) * cos (degToRad lat2) * (sin ((degToRad lon2 - degToRad lon1) / 2))\<^sup>2"

definition haversineMiles :: "real \<Rightarrow> real \<Rightarrow> real \<Rightarrow> real \<Rightarrow> real" where
  "haversineMiles lat1 lon1 lat2 lon2 =
     2 * 3959 * arcsin (sqrt (haversineTerm lat1 lon1 lat2 lon2))"

section \<open>Malformed inputs, in the specification's words\<close>

text \<open>
  A region is malformed when it is missing, its center is missing, or its radius is not
  a number; a coordinate is malformed when it is not a number or is \<open>NaN\<close>.
\<close>

definition malformed_region :: "jsval \<Rightarrow> bool" where
  "malformed_region region =
     (region = JUndefined \<or> region = JNull
      \<or> getProp region ''center'' = Inr JUndefined \<or> getProp region ''center'' = Inr JNull
      \<or> (case getProp region ''radiusMiles'' of Inr r \<Rightarrow> \<not> typeof_number r | Inl e \<Rightarrow> True))"

definition malformed_coordinate :: "jsval \<Rightarrow> bool" where
  "malformed_coordinate v = (\<not> typeof_number v \<or> isNaN v)"

section \<open>The rate limiter's timestamp of a category\<close>

definition lastCallOf :: "bool \<Rightarrow> rate_limiter \<Rightarrow> int" where
  "lastCallOf isMapChange st = (if isMapChange then lastMapChangeApiCall st else lastApiCall st)"

section \<open>The fallback condition, in the specification's words and as amended\<close>

definition withinOneDegree :: "jsnum \<Rightarrow> jsnum \<Rightarrow> bool" where
  "withinOneDegree a b =
     (case a of NaN \<Rightarrow> False | Num x \<Rightarrow> (case b of NaN \<Rightarrow> False | Num y \<Rightarrow> \<bar>x - y\<bar> < 1))"

text \<open>
  The specification: each of the snapshot's stored north, south, east and west bounds is
  within 1 degree of the corresponding requested bound.
\<close>

definition spec_boundsSimilar :: "bounds option \<Rightarrow> bounds option \<Rightarrow> bool" where
  "spec_boundsSimilar requested stored =
     (case requested of
        None \<Rightarrow> False
      | Some b \<Rightarrow>
          (case stored of
             None \<Rightarrow> False
           | Some cb \<Rightarrow>
               withinOneDegree (north cb) (north b) \<and> withinOneDegree (south cb) (south b)
               \<and> withinOneDegree (east cb) (east b) \<and> withinOneDegree (west cb) (west b)))"

definition spec_fallbackFlights :: "bounds option \<Rightarrow> flights_cache \<Rightarrow> int \<Rightarrow> flightData list" where
  "spec_fallbackFlights requested fc now =
     (if now - flightsTimestamp fc < 30 * 1000 \<and> spec_boundsSimilar requested (flightsBounds fc)
      then flights fc else [])"

text \<open>
  As amended: the request carries no bounds, or the snapshot stored none, or each stored
  bound differs from the requested one by less than 1 degree.
\<close>

definition amended_boundsSimilar :: "bounds option \<Rightarrow> bounds option \<Rightarrow> bool" where
  "amended_boundsSimilar requested stored =
     (case requested of
        None \<Rightarrow> True
      | Some b \<Rightarrow>
          (case stored of
             None \<Rightarrow> True
           | Some cb \<Rightarrow>
               withinOneDegree (north cb) (north b) \<and> withinOneDegree (south cb) (south b)
               \<and> withinOneDegree (east cb) (east b) \<and> withinOneDegree (west cb) (west b)))"

section \<open>Reports positioned on the equator or the prime meridian\<close>

definition zeroPosition :: "raw_flight \<Rightarrow> bool" where
  "zeroPosition flight = (idx flight 6 = JNum (Num 0) \<or> idx flight 5 = JNum (Num 0))"

section \<open>Example inputs\<close>

text \<open>Collaborators that answer every request of a cycle the same way, at one clock reading.\<close>

definition upstreamAt :: "int \<Rightarrow> token_response \<Rightarrow> feed_response \<Rightarrow> upstream" where
  "upstreamAt t grant feed =
     \<lparr>clock = t, tokenClock1 = t, grant1 = grant, feed1 = feed,
      tokenClock2 = t, grant2 = grant, feed2 = feed, lookupClock = t, handlerClock = t\<rparr>"

definition exampleFlight :: flightData where
  "exampleFlight =
     makeFlightData
       [JStr ''abc123'', JStr ''TEST01'', JStr ''United States'', JNum (Num 999990), JNum (Num 999990),
        JNum (Num (-111.7)), JNum (Num 33.47), JNum (Num 10000), JBool False,
        JNum (Num 250), JNum (Num 180), JNum (Num (-5))]
       (''TEST'', ''Unknown'') True"

text \<open>
  A gateway whose last normal call and last snapshot were taken at time 1000000, the
  snapshot with bounds \<open>{n:34, s:33, e:-111, w:-112}\<close>.
\<close>

definition snapshotGateway :: gateway where
  "snapshotGateway =
     initialGateway
       \<lparr>limiter := (limiter initialGateway)\<lparr>lastApiCall := 1000000\<rparr>,
        lastFlightsCache :=
          \<lparr>flights = [exampleFlight], flightsTimestamp = 1000000,
           flightsBounds = Some \<lparr>north = Num 34, south = Num 33, east = Num (-111), west = Num (-112)\<rparr>\<rparr>\<rparr>"

definition configured :: bindings where
  "configured = \<lparr>OPENSKY_CLIENT_ID = ''id'', OPENSKY_CLIENT_SECRET = ''secret'', AIRCRAFT_DB = None\<rparr>"

text \<open>\<open>parseFloat\<close> on the query strings the examples use.\<close>

definition parseDegrees :: "string \<Rightarrow> jsnum" where
  "parseDegrees s =
     (if s = ''34.5'' then Num 34.5
      else if s = ''33.5'' then Num 33.5
      else if s = ''-110.5'' then Num (-110.5)
      else if s = ''-111.5'' then Num (-111.5)
      else if s = ''36'' then Num 36
      else NaN)"

definition nearQuery :: map_query where
  "nearQuery = \<lparr>q_north = Some ''34.5'', q_south = Some ''33.5'', q_east = Some ''-110.5'',
                q_west = Some ''-111.5'', q_mapChanged = None\<rparr>"

definition farQuery :: map_query where
  "farQuery = \<lparr>q_north = Some ''36'', q_south = Some ''33.5'', q_east = Some ''-110.5'',
               q_west = Some ''-111.5'', q_mapChanged = None\<rparr>"

definition noBoundsQuery :: map_query where
  "noBoundsQuery = \<lparr>q_north = None, q_south = None, q_east = None, q_west = None,
                    q_mapChanged = None\<rparr>"

text \<open>A record cache at capacity: 1000 keys \<open>000000\<close> .. \<open>0003e7\<close>, and a store without objects.\<close>

definition hexDigit :: "nat \<Rightarrow> char" where
  "hexDigit d = ''0123456789abcdef'' ! (d mod 16)"

definition hex6 :: "nat \<Rightarrow> string" where
  "hex6 i = map (\<lambda>p. hexDigit (i div 16 ^ p)) [5, 4, 3, 2, 1, 0]"

definition fullCache :: record_cache where
  "fullCache =
     \<lparr>records = map (\<lambda>i. (hex6 i, \<lparr>data = JObj [(''registration'', JStr (hex6 i))],
                                   timestamp = int i\<rparr>)) [0..<1000],
      maxSize = 1000\<rparr>"

definition emptyBucket :: r2_bucket where
  "emptyBucket objectKey = R2Absent"

text \<open>An airborne report on the equator and one on the prime meridian.\<close>

definition equatorFlight :: raw_flight where
  "equatorFlight =
     [JStr ''a1b2c3'', JStr ''EQ001'', JStr ''Ecuador'', JNum (Num 999990), JNum (Num 999990),
      JNum (Num (-78.5)), JNum (Num 0), JNum (Num 9000), JBool False,
      JNum (Num 220), JNum (Num 90), JNum (Num 0)]"

definition meridianFlight :: raw_flight where
  "meridianFlight =
     [JStr ''4ca1b2'', JStr ''PM001'', JStr ''United Kingdom'', JNum (Num 999990), JNum (Num 999990),
      JNum (Num 0), JNum (Num 51.5), JNum (Num 9000), JBool False,
      JNum (Num 220), JNum (Num 90), JNum (Num 0)]"

section \<open>GeoMath: results\<close>

lemma getProp_truthy: "truthy v \<Longrightarrow> \<exists>w. getProp v k = Inr w"
  by (cases v) (auto split: option.splits)

text \<open>Sanity checks of the Haversine formula: a point to itself, a quarter and a half
  of a great circle.\<close>

lemma calculateDistance_same:
  "calculateDistance conv (JNum (Num x)) (JNum (Num y)) (JNum (Num x)) (JNum (Num y)) = Num 0"
  by (simp add: calculateDistance_def Let_def atan2_def)

lemma calculateDistance_quarter:
  "calculateDistance conv (JNum (Num 0)) (JNum (Num 0)) (JNum (Num 90)) (JNum (Num 0))
     = Num (3959 * pi / 2)"
  by (simp add: calculateDistance_def Let_def atan2_def sin_45 cos_45 arctan_one)

lemma calculateDistance_half:
  "calculateDistance conv (JNum (Num 0)) (JNum (Num 0)) (JNum (Num 0)) (JNum (Num 180))
     = Num (3959 * pi)"
  by (simp add: calculateDistance_def Let_def atan2_def)

lemma calculateDistance_undefined:
  "calculateDistance conv JUndefined clon lat lon = NaN"
  by (simp add: calculateDistance_def Let_def)

text \<open>
  \<open>calculateDistance\<close> on numbers is the Haversine distance: the term under the root
  lies in \<open>[0, 1]\<close>, where \<open>atan2 (sqrt h) (sqrt (1 - h)) = arcsin (sqrt h)\<close>.
\<close>

lemma atan2_arcsin:
  assumes "0 \<le> a" and "a \<le> 1"
  shows "atan2 (sqrt a) (sqrt (1 - a)) = arcsin (sqrt a)"
proof (cases "a = 1")
  case True
  then show ?thesis by (simp add: atan2_def)
next
  case False
  with assms have lt: "a < 1" by simp
  let ?y = "sqrt a"
  have y: "0 \<le> ?y" "?y < 1" using assms lt by (simp_all add: real_sqrt_lt_1_iff)
  have x: "0 < sqrt (1 - a)" using lt by simp
  have y': "- 1 < ?y" "- 1 \<le> ?y" "?y \<le> 1" using y by linarith+
  have b: "- (pi / 2) < arcsin ?y \<and> arcsin ?y < pi / 2"
    using y'(1) y(2) by (rule arcsin_lt_bounded)
  have "cos (arcsin ?y) = sqrt (1 - ?y\<^sup>2)"
    using y'(2,3) by (rule cos_arcsin)
  also have "?y\<^sup>2 = a" using assms by simp
  finally have c: "cos (arcsin ?y) = sqrt (1 - a)" .
  have s: "sin (arcsin ?y) = ?y" using y'(2,3) by (rule sin_arcsin)
  have "tan (arcsin ?y) = ?y / sqrt (1 - a)"
    by (simp add: tan_def c s)
  then have "arctan (?y / sqrt (1 - a)) = arcsin ?y"
    using arctan_tan [of "arcsin ?y"] b by simp
  with x show ?thesis by (simp add: atan2_def)
qed

lemma haversineTerm_bounds:
  "0 \<le> haversineTerm lat1 lon1 lat2 lon2" "haversineTerm lat1 lon1 lat2 lon2 \<le> 1"
proof -
  define p where "p = degToRad lat1"
  define q where "q = degToRad lat2"
  define t where "t = (sin ((degToRad lon2 - degToRad lon1) / 2))\<^sup>2"
  define A where "A = cos (q - p)"
  define B where "B = cos (p + q)"
  have "t + (cos ((degToRad lon2 - degToRad lon1) / 2))\<^sup>2 = 1"
    unfolding t_def by (rule sin_cos_squared_add)
  then have t1: "t \<le> 1"
    using zero_le_power2 [of "cos ((degToRad lon2 - degToRad lon1) / 2)"] by linarith
  have t0: "0 \<le> t" unfolding t_def by simp
  note t = t0 t1
  have A: "- 1 \<le> A" "A \<le> 1" and B: "- 1 \<le> B" "B \<le> 1"
    unfolding A_def B_def by simp_all
  have d: "2 * ((q - p) / 2) = q - p" by simp
  have "A = 1 - 2 * (sin ((q - p) / 2))\<^sup>2"
    unfolding A_def using cos_double_sin [of "(q - p) / 2"] unfolding d .
  then have s: "(sin ((q - p) / 2))\<^sup>2 = (1 - A) / 2" by simp
  have "cos (p - q) = A"
    unfolding A_def using cos_minus [of "q - p"] by simp
  then have c: "cos p * cos q = (A + B) / 2"
    unfolding B_def by (simp add: cos_times_cos)
  have h: "haversineTerm lat1 lon1 lat2 lon2 = (1 - A) / 2 + (A + B) / 2 * t"
    unfolding haversineTerm_def p_def [symmetric] q_def [symmetric] t_def [symmetric] s c ..
  have tA: "t * A \<le> t" "- t \<le> t * A"
    using t A mult_left_mono [of A 1 t] mult_left_mono [of "- 1" A t] by simp_all
  have uA: "(1 - t) * A \<le> 1 - t" "- (1 - t) \<le> (1 - t) * A"
    using t A mult_left_mono [of A 1 "1 - t"] mult_left_mono [of "- 1" A "1 - t"] by simp_all
  have tB: "t * B \<le> t" "- t \<le> t * B"
    using t B mult_left_mono [of B 1 t] mult_left_mono [of "- 1" B t] by simp_all
  have e: "haversineTerm lat1 lon1 lat2 lon2 = (1 - (1 - t) * A + t * B) / 2"
    unfolding h by (simp add: field_simps)
  show "0 \<le> haversineTerm lat1 lon1 lat2 lon2"
    unfolding e using uA tB by simp
  show "haversineTerm lat1 lon1 lat2 lon2 \<le> 1"
    unfolding e using uA tB by simp
qed

lemma calculateDistance_haversine:
  "calculateDistance conv (JNum (Num lat1)) (JNum (Num lon1)) (JNum (Num lat2)) (JNum (Num lon2))
     = Num (haversineMiles lat1 lon1 lat2 lon2)"
proof -
  let ?h = "haversineTerm lat1 lon1 lat2 lon2"
  have dLat: "js_div (js_mul (js_sub (toNumber conv (JNum (Num lat2))) (toNumber conv (JNum (Num lat1))))
                        (Num pi)) (Num 180) = Num ((lat2 - lat1) * pi / 180)"
    and dLon: "js_div (js_mul (js_sub (toNumber conv (JNum (Num lon2))) (toNumber conv (JNum (Num lon1))))
                        (Num pi)) (Num 180) = Num ((lon2 - lon1) * pi / 180)"
    by simp_all
  have c1: "js_cos (js_div (js_mul (toNumber conv (JNum (Num lat1))) (Num pi)) (Num 180))
              = Num (cos (degToRad lat1))"
    and c2: "js_cos (js_div (js_mul (toNumber conv (JNum (Num lat2))) (Num pi)) (Num 180))
              = Num (cos (degToRad lat2))"
    by (simp_all add: degToRad_def)
  have s1: "js_sin (js_div (Num ((lat2 - lat1) * pi / 180)) (Num 2))
              = Num (sin ((degToRad lat2 - degToRad lat1) / 2))"
    and s2: "js_sin (js_div (Num ((lon2 - lon1) * pi / 180)) (Num 2))
              = Num (sin ((degToRad lon2 - degToRad lon1) / 2))"
    by (simp_all add: degToRad_def algebra_simps diff_divide_distrib)
  have a: "js_add
             (js_mul (Num (sin ((degToRad lat2 - degToRad lat1) / 2)))
                     (Num (sin ((degToRad lat2 - degToRad lat1) / 2))))
             (js_mul
               (js_mul
                 (js_mul (Num (cos (degToRad lat1))) (Num (cos (degToRad lat2))))
                 (Num (sin ((degToRad lon2 - degToRad lon1) / 2))))
               (Num (sin ((degToRad lon2 - degToRad lon1) / 2))))
           = Num ?h"
    by (simp add: haversineTerm_def power2_eq_square mult.assoc)
  have "calculateDistance conv (JNum (Num lat1)) (JNum (Num lon1)) (JNum (Num lat2)) (JNum (Num lon2))
          = js_mul (Num 3959)
              (js_mul (Num 2) (js_atan2 (js_sqrt (Num ?h)) (js_sqrt (js_sub (Num 1) (Num ?h)))))"
    unfolding calculateDistance_def Let_def dLat dLon c1 c2 s1 s2 a by (rule refl)
  also have "\<dots> = Num (haversineMiles lat1 lon1 lat2 lon2)"
    using haversineTerm_bounds [of lat1 lon1 lat2 lon2]
    by (simp add: atan2_arcsin haversineMiles_def)
  finally show ?thesis .
qed

text \<open>Along a meridian the Haversine distance is the arc: radius times the angle.\<close>

lemma haversineMiles_meridian:
  assumes "\<bar>lat2 - lat1\<bar> \<le> 180"
  shows "haversineMiles lat1 lon lat2 lon = 3959 * degToRad \<bar>lat2 - lat1\<bar>"
proof -
  let ?x = "(degToRad lat2 - degToRad lat1) / 2"
  let ?d = "degToRad \<bar>lat2 - lat1\<bar> / 2"
  have r: "0 \<le> ?d" "?d \<le> pi / 2"
    using assms by (simp_all add: degToRad_def)
  have x: "?x = degToRad (lat2 - lat1) / 2"
    by (simp add: degToRad_def algebra_simps diff_divide_distrib)
  have sq: "(sin ?x)\<^sup>2 = (sin ?d)\<^sup>2"
  proof (cases "0 \<le> lat2 - lat1")
    case True
    then show ?thesis unfolding x by simp
  next
    case False
    then have "?d = - ?x" unfolding x by (simp add: degToRad_def field_simps)
    then have "sin ?d = - sin ?x" by (metis sin_minus)
    then show ?thesis by (metis power2_minus)
  qed
  have "0 \<le> sin ?d"
    using r pi_ge_zero by (intro sin_ge_zero) linarith+
  then have "sqrt (haversineTerm lat1 lon lat2 lon) = sin ?d"
    by (simp add: haversineTerm_def sq)
  then have "haversineMiles lat1 lon lat2 lon = 2 * 3959 * arcsin (sin ?d)"
    by (simp add: haversineMiles_def)
  also have "arcsin (sin ?d) = ?d"
    using r pi_ge_zero by (intro arcsin_sin) linarith+
  finally show ?thesis by simp
qed

lemma isPointInRegion_total: "\<exists>b. isPointInRegion conv lat lon region = Inr b"
proof (cases "truthy region")
  case False
  then show ?thesis by (auto simp add: isPointInRegion_def)
next
  case True
  then obtain center radiusMiles where c: "getProp region ''center'' = Inr center"
    and r: "getProp region ''radiusMiles'' = Inr radiusMiles"
    using getProp_truthy by blast
  show ?thesis
  proof (cases "truthy center")
    case False
    with True c show ?thesis by (auto simp add: isPointInRegion_def)
  next
    case tc: True
    then obtain clat clon where "getProp center ''lat'' = Inr clat" "getProp center ''lon'' = Inr clon"
      using getProp_truthy by blast
    with True c r tc show ?thesis by (auto simp add: isPointInRegion_def)
  qed
qed

lemma isPointInRegion_malformed:
  assumes "malformed_region region \<or> malformed_coordinate lat \<or> malformed_coordinate lon"
  shows "isPointInRegion conv lat lon region = Inr False"
proof -
  obtain b where b: "isPointInRegion conv lat lon region = Inr b"
    using isPointInRegion_total by blast
  have "\<not> b"
    using assms b
    by (auto simp: isPointInRegion_def malformed_region_def malformed_coordinate_def
             split: if_splits sum.splits)
  with b show ?thesis by simp
qed

lemma isPointInRegion_wellformed:
  assumes "getProp region ''center'' = Inr center"
    and "getProp region ''radiusMiles'' = Inr (JNum r)"
    and "getProp center ''lat'' = Inr clat" and "getProp center ''lon'' = Inr clon"
    and "\<not> malformed_coordinate lat" and "\<not> malformed_coordinate lon"
  shows "isPointInRegion conv lat lon region
           = Inr (js_le (calculateDistance conv clat clon lat lon) r)"
proof -
  have tr: "truthy region" using assms(2) by (cases region) auto
  show ?thesis
  proof (cases "truthy center")
    case True
    with tr assms show ?thesis
      by (simp add: isPointInRegion_def malformed_coordinate_def)
  next
    case False
    with assms(3,4) have "clat = JUndefined"
      by (cases center) (auto split: option.splits)
    with False tr assms show ?thesis
      by (simp add: isPointInRegion_def calculateDistance_undefined)
  qed
qed

lemma isPointInRegion_haversine:
  assumes "getProp region ''center'' = Inr center"
    and "getProp region ''radiusMiles'' = Inr (JNum (Num r))"
    and "getProp center ''lat'' = Inr (JNum (Num clat))"
    and "getProp center ''lon'' = Inr (JNum (Num clon))"
  shows "isPointInRegion conv (JNum (Num x)) (JNum (Num y)) region
           = Inr (haversineMiles clat clon x y \<le> r)"
  using isPointInRegion_wellformed [OF assms, of "JNum (Num x)" "JNum (Num y)" conv]
  by (simp add: malformed_coordinate_def calculateDistance_haversine)

text \<open>
  Claim C7. \<open>isPointInRegion\<close> never throws: for every latitude, longitude and region
  value it returns a boolean. It returns false when the region is missing, its center is
  missing, its radius is not a number, or a coordinate is not a number or is \<open>NaN\<close>.
  On every other input it returns whether the distance \<open>calculateDistance\<close> computes
  from the region's center to the point is at most the region's \<open>radiusMiles\<close>; and when
  the center, the radius and the coordinates are numbers, that is: it returns true if and
  only if the Haversine great-circle distance (Earth radius 3959 miles) from the center to
  the point is at most \<open>radiusMiles\<close>. Numbers are finite doubles taken as reals.
\<close>

theorem isPointInRegion_fails_closed:
  "(\<exists>b. isPointInRegion conv lat lon region = Inr b)
   \<and> (malformed_region region \<or> malformed_coordinate lat \<or> malformed_coordinate lon
        \<longrightarrow> isPointInRegion conv lat lon region = Inr False)
   \<and> (\<forall>center r clat clon.
         getProp region ''center'' = Inr center \<and> getProp region ''radiusMiles'' = Inr (JNum r)
         \<and> getProp center ''lat'' = Inr clat \<and> getProp center ''lon'' = Inr clon
         \<and> \<not> malformed_coordinate lat \<and> \<not> malformed_coordinate lon
         \<longrightarrow> isPointInRegion conv lat lon region
               = Inr (js_le (calculateDistance conv clat clon lat lon) r))
   \<and> (\<forall>center r clat clon x y.
         getProp region ''center'' = Inr center \<and> getProp region ''radiusMiles'' = Inr (JNum (Num r))
         \<and> getProp center ''lat'' = Inr (JNum (Num clat))
         \<and> getProp center ''lon'' = Inr (JNum (Num clon))
         \<and> lat = JNum (Num x) \<and> lon = JNum (Num y)
         \<longrightarrow> isPointInRegion conv lat lon region = Inr (haversineMiles clat clon x y \<le> r))"
  using isPointInRegion_total [of conv lat lon region]
        isPointInRegion_malformed [of region lat lon conv]
        isPointInRegion_wellformed [of region _ _ _ _ lat lon conv]
        isPointInRegion_haversine [of region _ _ _ _ conv]
  by blast

text \<open>
  The center of the default region is inside it. From the center \<open>(0, 0)\<close>, the point one
  degree to the north is \<open>3959 pi / 180\<close> miles away, inside a radius of 100 and outside a
  radius of 3; the pole is outside. Malformed coordinates and regions give false.
\<close>

theorem isPointInRegion_fails_closed_witness:
  "isPointInRegion (\<lambda>v. NaN) (JNum (Num 33.47582267755572)) (JNum (Num (-111.70391851974681)))
       DEFAULT_REGION = Inr True
   \<and> isPointInRegion (\<lambda>v. NaN) (JNum (Num 90)) (JNum (Num 0)) (regionBody 0 0 3) = Inr False
   \<and> isPointInRegion (\<lambda>v. NaN) (JNum NaN) (JNum (Num (-111.70391851974681))) DEFAULT_REGION = Inr False
   \<and> isPointInRegion (\<lambda>v. NaN) (JNum (Num 33.47582267755572)) (JStr ''-111.7'') DEFAULT_REGION = Inr False
   \<and> isPointInRegion (\<lambda>v. NaN) (JNum (Num 1)) (JNum (Num 2)) JNull = Inr False
   \<and> isPointInRegion (\<lambda>v. NaN) (JNum (Num 1)) (JNum (Num 2)) (JObj [(''radiusMiles'', JNum (Num 3))])
       = Inr False
   \<and> isPointInRegion (\<lambda>v. NaN) (JNum (Num 1)) (JNum (Num 2))
       (JObj [(''center'', JObj [(''lat'', JNum (Num 1)), (''lon'', JNum (Num 2))]),
              (''radiusMiles'', JStr ''3'')]) = Inr False
   \<and> isPointInRegion (\<lambda>v. NaN) (JNum (Num 1)) (JNum (Num 0)) (regionBody 0 0 100) = Inr True
   \<and> isPointInRegion (\<lambda>v. NaN) (JNum (Num 1)) (JNum (Num 0)) (regionBody 0 0 3) = Inr False
   \<and> haversineMiles 0 0 1 0 = 3959 * pi / 180"
proof -
  let ?c = "\<lambda>v::jsval. NaN"
  note T = isPointInRegion_fails_closed
  have hv: "isPointInRegion ?c (JNum (Num x)) (JNum (Num y)) (regionBody a b r)
              = Inr (haversineMiles a b x y \<le> r)" for a b r x y
    by (rule T [of ?c "JNum (Num x)" "JNum (Num y)" "regionBody a b r",
                 THEN conjunct2, THEN conjunct2, THEN conjunct2, rule_format,
                 of "JObj [(''lat'', JNum (Num a)), (''lon'', JNum (Num b))]" r a b x y])
       (simp add: regionBody_def)
  have mf: "isPointInRegion ?c la lo region = Inr False"
    if "malformed_region region \<or> malformed_coordinate la \<or> malformed_coordinate lo"
    for la lo region
    using T [of ?c la lo region, THEN conjunct2, THEN conjunct1] that by blast
  have dr: "DEFAULT_REGION = regionBody 33.47582267755572 (-111.70391851974681) 3"
    by (simp add: DEFAULT_REGION_def regionBody_def)
  have same: "haversineMiles a b a b = 0" for a b
    using haversineMiles_meridian [of a a b] by (simp add: degToRad_def)
  have one: "haversineMiles 0 0 1 0 = 3959 * pi / 180"
    using haversineMiles_meridian [of 1 0 0] by (simp add: degToRad_def)
  have pole: "haversineMiles 0 0 90 0 = 3959 * pi / 2"
    using haversineMiles_meridian [of 90 0 0] by (simp add: degToRad_def)
  have near: "3959 * pi / 180 \<le> (100::real)" using pi_less_4 by simp
  have far1: "\<not> 3959 * pi / 180 \<le> (3::real)" using pi_ge_two by simp
  have far2: "\<not> 3959 * pi / 2 \<le> (3::real)" using pi_ge_two by simp
  have w1: "isPointInRegion ?c (JNum (Num 33.47582267755572)) (JNum (Num (-111.70391851974681)))
              DEFAULT_REGION = Inr True"
    unfolding dr hv same by simp
  have w2: "isPointInRegion ?c (JNum (Num 90)) (JNum (Num 0)) (regionBody 0 0 3) = Inr False"
    unfolding hv pole using far2 by simp
  have w3: "isPointInRegion ?c (JNum NaN) (JNum (Num (-111.70391851974681))) DEFAULT_REGION = Inr False"
    by (rule mf) (simp add: malformed_coordinate_def)
  have w4: "isPointInRegion ?c (JNum (Num 33.47582267755572)) (JStr ''-111.7'') DEFAULT_REGION = Inr False"
    by (rule mf) (simp add: malformed_coordinate_def)
  have w5: "isPointInRegion ?c (JNum (Num 1)) (JNum (Num 2)) JNull = Inr False"
    by (rule mf) (simp add: malformed_region_def)
  have w6: "isPointInRegion ?c (JNum (Num 1)) (JNum (Num 2)) (JObj [(''radiusMiles'', JNum (Num 3))])
              = Inr False"
    by (rule mf) (simp add: malformed_region_def)
  have w7: "isPointInRegion ?c (JNum (Num 1)) (JNum (Num 2))
              (JObj [(''center'', JObj [(''lat'', JNum (Num 1)), (''lon'', JNum (Num 2))]),
                     (''radiusMiles'', JStr ''3'')]) = Inr False"
    by (rule mf) (simp add: malformed_region_def)
  have w8: "isPointInRegion ?c (JNum (Num 1)) (JNum (Num 0)) (regionBody 0 0 100) = Inr True"
    unfolding hv one using near by simp
  have w9: "isPointInRegion ?c (JNum (Num 1)) (JNum (Num 0)) (regionBody 0 0 3) = Inr False"
    unfolding hv one using far1 by simp
  from w1 w2 w3 w4 w5 w6 w7 w8 w9 one show ?thesis by blast
qed

section \<open>TokenBroker: results\<close>

lemma getAccessToken_cached:
  "truthy (token tc) \<Longrightarrow> expiresAt tc > now + TOKEN_EXPIRY_BUFFER \<Longrightarrow>
     getAccessToken now resp tc = (Inr (token tc), tc, 0)"
  by (simp add: getAccessToken_def)

lemma getAccessToken_calls:
  "snd (snd (getAccessToken now resp tc)) =
     (if truthy (token tc) \<and> expiresAt tc > now + TOKEN_EXPIRY_BUFFER then 0 else 1)"
  by (simp add: getAccessToken_def split: token_response.splits sum.splits)

lemma getAccessToken_grant:
  "\<not> (truthy (token tc) \<and> expiresAt tc > now + TOKEN_EXPIRY_BUFFER) \<Longrightarrow>
   getProp d ''access_token'' = Inr t \<Longrightarrow> truthy t \<Longrightarrow>
     getAccessToken now (TokenBody d) tc
       = (Inr t, \<lparr>token = t, expiresAt = now + TOKEN_EXPIRY_TIME\<rparr>, 1)"
  by (simp add: getAccessToken_def)

text \<open>A failed grant clears the cache and throws.\<close>

lemma getAccessToken_failure:
  "getAccessToken now resp tc = (Inl e, tc', n) \<Longrightarrow> tc' = clearedTokenCache \<and> n = 1"
  by (auto simp: getAccessToken_def split: if_splits token_response.splits sum.splits)

text \<open>
  Claim C5. \<open>getAccessToken\<close> sends no request to the token endpoint if and only if the
  cached token exists and \<open>expiresAt > now + 5 min\<close>; it then returns the cached token
  and leaves the cache as it is. Otherwise it sends one grant request, and the token the
  grant returns is cached with \<open>expiresAt = now + 30 min\<close> and returned.
\<close>

theorem getAccessToken_cache_or_grant:
  "(snd (snd (getAccessToken now resp tc)) = 0
      \<longleftrightarrow> truthy (token tc) \<and> expiresAt tc > now + 5 * 60 * 1000)
   \<and> (truthy (token tc) \<and> expiresAt tc > now + 5 * 60 * 1000
        \<longrightarrow> getAccessToken now resp tc = (Inr (token tc), tc, 0))
   \<and> (\<not> (truthy (token tc) \<and> expiresAt tc > now + 5 * 60 * 1000)
        \<longrightarrow> snd (snd (getAccessToken now resp tc)) = 1
            \<and> (\<forall>d t. resp = TokenBody d \<and> getProp d ''access_token'' = Inr t \<and> truthy t
                  \<longrightarrow> getAccessToken now resp tc
                        = (Inr t, \<lparr>token = t, expiresAt = now + 30 * 60 * 1000\<rparr>, 1)))"
proof -
  have b: "TOKEN_EXPIRY_BUFFER = 5 * 60 * 1000" by (simp add: TOKEN_EXPIRY_BUFFER_def)
  have l: "TOKEN_EXPIRY_TIME = 30 * 60 * 1000" by (simp add: TOKEN_EXPIRY_TIME_def)
  show ?thesis
    using getAccessToken_cached [of tc now resp] getAccessToken_calls [of now resp tc]
          getAccessToken_grant [of tc now _ _]
    unfolding b l by (auto split: if_splits)
qed

text \<open>
  At \<open>now = 1000000\<close>: a token with \<open>expiresAt = now + 4 min\<close> is refreshed, one with
  \<open>expiresAt = now + 10 min\<close> is returned from the cache.
\<close>

theorem getAccessToken_cache_or_grant_witness:
  "getAccessToken 1000000 (TokenBody (JObj [(''access_token'', JStr ''new'')]))
       \<lparr>token = JStr ''old'', expiresAt = 1000000 + 4 * 60 * 1000\<rparr>
     = (Inr (JStr ''new''), \<lparr>token = JStr ''new'', expiresAt = 1000000 + 30 * 60 * 1000\<rparr>, 1)
   \<and> getAccessToken 1000000 (TokenBody (JObj [(''access_token'', JStr ''new'')]))
       \<lparr>token = JStr ''old'', expiresAt = 1000000 + 10 * 60 * 1000\<rparr>
     = (Inr (JStr ''old''), \<lparr>token = JStr ''old'', expiresAt = 1000000 + 10 * 60 * 1000\<rparr>, 0)"
  using getAccessToken_cache_or_grant
          [of 1000000 "TokenBody (JObj [(''access_token'', JStr ''new'')])"
              "\<lparr>token = JStr ''old'', expiresAt = 1000000 + 4 * 60 * 1000\<rparr>"]
        getAccessToken_cache_or_grant
          [of 1000000 "TokenBody (JObj [(''access_token'', JStr ''new'')])"
              "\<lparr>token = JStr ''old'', expiresAt = 1000000 + 10 * 60 * 1000\<rparr>"]
  by simp

section \<open>Map bounds: results\<close>

text \<open>
  Where no bound is 0 and the longitude is a longitude, the code is the specification's
  test.
\<close>

lemma isPointInBounds_nonzero:
  assumes "n \<noteq> 0" "s \<noteq> 0" "e \<noteq> 0" "w \<noteq> 0" "-180 \<le> lon" "lon \<le> 180"
  shows "isPointInBounds conv (JNum (Num lat)) (JNum (Num lon))
           (Some \<lparr>north = Num n, south = Num s, east = Num e, west = Num w\<rparr>)
         = spec_pointInBounds lat lon n s e w"
  using assms by (auto simp: isPointInBounds_def spec_pointInBounds_def Let_def)

text \<open>With \<open>west = 170\<close> and \<open>east = -170\<close>: longitudes 175 and -175 are accepted, 0 is rejected.\<close>

lemma isPointInBounds_antimeridian:
  "isPointInBounds conv (JNum (Num 10)) (JNum (Num 175))
     (Some \<lparr>north = Num 20, south = Num 5, east = Num (-170), west = Num 170\<rparr>)
   \<and> isPointInBounds conv (JNum (Num 10)) (JNum (Num (-175)))
     (Some \<lparr>north = Num 20, south = Num 5, east = Num (-170), west = Num 170\<rparr>)
   \<and> \<not> isPointInBounds conv (JNum (Num 10)) (JNum (Num 0))
     (Some \<lparr>north = Num 20, south = Num 5, east = Num (-170), west = Num 170\<rparr>)"
  by (simp add: isPointInBounds_def Let_def)

text \<open>
  Claim C6. The claim is that for every point and bounds the latitude is tested against
  \<open>[south, north]\<close> and the longitude against \<open>[west, east]\<close>, or against
  \<open>[west, 180]\<close> and \<open>[-180, east]\<close> when \<open>west > east\<close>. The code agrees wherever
  no bound is 0 (\<open>isPointInBounds_nonzero\<close>, \<open>isPointInBounds_antimeridian\<close>), but its
  guard \<open>!bounds.north || !bounds.south || !bounds.east || !bounds.west\<close> takes a bound
  of 0 for a missing bound: for the viewport \<open>{north: 10, south: 0, east: 10, west: 5}\<close>
  the point \<open>(5, 7)\<close> lies inside and is rejected.
\<close>

theorem isPointInBounds_zero_edge_rejects_inside:
  "isPointInBounds conv (JNum (Num 5)) (JNum (Num 7))
     (Some \<lparr>north = Num 10, south = Num 0, east = Num 10, west = Num 5\<rparr>) = False
   \<and> spec_pointInBounds 5 7 10 0 10 5"
  by (simp add: isPointInBounds_def spec_pointInBounds_def)

theorem isPointInBounds_zero_edge_rejects_inside_witness:
  "\<not> isPointInBounds (\<lambda>v. NaN) (JNum (Num 5)) (JNum (Num 7))
       (Some \<lparr>north = Num 10, south = Num 0, east = Num 10, west = Num 5\<rparr>)
   \<and> spec_pointInBounds 5 7 10 0 10 5"
  using isPointInBounds_zero_edge_rejects_inside [of "\<lambda>v. NaN"] by simp

text \<open>
  Claim C10. \<open>isPointInBounds\<close> returns false whenever one of the four bounds is
  exactly 0, for every point: a viewport with an edge on the equator or on the prime
  meridian rejects every point.
\<close>

theorem isPointInBounds_zero_bound:
  "north b = Num 0 \<or> south b = Num 0 \<or> east b = Num 0 \<or> west b = Num 0
     \<Longrightarrow> isPointInBounds conv lat lon (Some b) = False"
  by (auto simp: isPointInBounds_def)

theorem isPointInBounds_zero_bound_witness:
  "isPointInBounds (\<lambda>v. NaN) (JNum (Num 51.5)) (JNum (Num (-0.5)))
       (Some \<lparr>north = Num 52, south = Num 51, east = Num 0, west = Num (-1)\<rparr>) = False
   \<and> spec_pointInBounds 51.5 (-0.5) 52 51 0 (-1)
   \<and> isPointInBounds (\<lambda>v. NaN) (JNum (Num 1)) (JNum (Num 20))
       (Some \<lparr>north = Num 0, south = Num (-10), east = Num 30, west = Num 10\<rparr>) = False
   \<and> isPointInBounds (\<lambda>v. NaN) (JNum (Num (-5))) (JNum (Num 20))
       (Some \<lparr>north = Num 0, south = Num (-10), east = Num 30, west = Num 10\<rparr>) = False"
  using isPointInBounds_zero_bound
          [of "\<lparr>north = Num 52, south = Num 51, east = Num 0, west = Num (-1)\<rparr>"
              "\<lambda>v. NaN" "JNum (Num 51.5)" "JNum (Num (-0.5))"]
        isPointInBounds_zero_bound
          [of "\<lparr>north = Num 0, south = Num (-10), east = Num 30, west = Num 10\<rparr>"
              "\<lambda>v. NaN" "JNum (Num 1)" "JNum (Num 20)"]
        isPointInBounds_zero_bound
          [of "\<lparr>north = Num 0, south = Num (-10), east = Num 30, west = Num 10\<rparr>"
              "\<lambda>v. NaN" "JNum (Num (-5))" "JNum (Num 20)"]
  by (simp add: spec_pointInBounds_def)

section \<open>RateLimiter: results\<close>

lemma fetch_gate_closed:
  "\<not> gateOpen (clock w) m st \<Longrightarrow> fetchOpenSkyData w m st = (None, st)"
  by (simp add: fetchOpenSkyData_def gateOpen_def Let_def)

lemma lastCallOf_markCall: "lastCallOf m (markCall m now st) = now"
  by (simp add: lastCallOf_def markCall_def)

lemma fetch_token_throws:
  assumes "gateOpen (clock w) m st"
    and "getAccessToken (tokenClock1 w) (grant1 w) (tokenCache st) = (Inl e, tc1, n)"
  shows "fetchOpenSkyData w m st = (None, st\<lparr>tokenCache := tc1\<rparr>)"
  using assms by (simp add: fetchOpenSkyData_def gateOpen_def Let_def)

lemma fetch_feed_rejected:
  assumes "gateOpen (clock w) m st"
    and "getAccessToken (tokenClock1 w) (grant1 w) (tokenCache st) = (Inr t, tc1, n)"
    and "feed1 w = FeedFetchRejected"
  shows "fetchOpenSkyData w m st = (None, st\<lparr>tokenCache := tc1\<rparr>)"
  using assms by (simp add: fetchOpenSkyData_def gateOpen_def Let_def)

text \<open>When the feed request answers, with any status, the timestamp is written.\<close>

lemma fetch_feed_answers:
  assumes "gateOpen (clock w) m st"
    and "getAccessToken (tokenClock1 w) (grant1 w) (tokenCache st) = (Inr t, tc1, n)"
    and "feed1 w \<noteq> FeedFetchRejected"
  shows "\<exists>r tc. fetchOpenSkyData w m st = (r, markCall m (clock w) (st\<lparr>tokenCache := tc\<rparr>))"
proof (cases "feed1 w")
  case FeedFetchRejected
  with assms(3) show ?thesis by simp
next
  case (FeedNotOk status)
  obtain r2 tc2 n2 where g2: "getAccessToken (tokenClock2 w) (grant2 w) clearedTokenCache = (r2, tc2, n2)"
    by (cases "getAccessToken (tokenClock2 w) (grant2 w) clearedTokenCache") auto
  show ?thesis
    using assms(1,2) FeedNotOk g2
    by (cases r2; cases "feed2 w") (auto simp add: fetchOpenSkyData_def gateOpen_def Let_def)
next
  case FeedBodyUnreadable
  with assms(1,2) show ?thesis by (auto simp add: fetchOpenSkyData_def gateOpen_def Let_def)
next
  case (FeedBody states)
  with assms(1,2) show ?thesis by (auto simp add: fetchOpenSkyData_def gateOpen_def Let_def)
qed

lemma fetch_marks_when_feed_answers:
  assumes "gateOpen (clock w) m st"
    and "getAccessToken (tokenClock1 w) (grant1 w) (tokenCache st) = (Inr t, tc1, n)"
    and "feed1 w \<noteq> FeedFetchRejected"
  shows "lastCallOf m (snd (fetchOpenSkyData w m st)) = clock w"
  using fetch_feed_answers [OF assms] by (auto simp: lastCallOf_markCall)

text \<open>
  Claim C1. The claim is that every fetch cycle that finds the gate open updates the
  category's timestamp, whether the upstream call succeeds or fails. The code writes the
  timestamp after the awaited feed request has answered: when the feed request is
  rejected (a network failure), or the token cannot be obtained, the \<open>catch\<close> block
  returns \<open>null\<close> with both timestamps unchanged, and the gate is still open. The
  source's comments say the timestamp is always updated, even on errors.
\<close>

theorem fetch_throw_leaves_gate_open:
  assumes "gateOpen (clock w) m st"
    and "feed1 w = FeedFetchRejected
         \<or> isl (fst (getAccessToken (tokenClock1 w) (grant1 w) (tokenCache st)))"
  shows "fst (fetchOpenSkyData w m st) = None
         \<and> lastApiCall (snd (fetchOpenSkyData w m st)) = lastApiCall st
         \<and> lastMapChangeApiCall (snd (fetchOpenSkyData w m st)) = lastMapChangeApiCall st
         \<and> gateOpen (clock w) m (snd (fetchOpenSkyData w m st))"
proof -
  obtain r tc1 n where g: "getAccessToken (tokenClock1 w) (grant1 w) (tokenCache st) = (r, tc1, n)"
    by (cases "getAccessToken (tokenClock1 w) (grant1 w) (tokenCache st)") auto
  have "fetchOpenSkyData w m st = (None, st\<lparr>tokenCache := tc1\<rparr>)"
  proof (cases r)
    case (Inl e)
    with g assms(1) show ?thesis by (simp add: fetch_token_throws)
  next
    case (Inr t)
    with g assms(2) have "feed1 w = FeedFetchRejected" by simp
    with g Inr assms(1) show ?thesis by (simp add: fetch_feed_rejected)
  qed
  with assms(1) show ?thesis by (auto simp add: gateOpen_def)
qed


text \<open>
  From the initial state at time 1000000: a rejected feed request and a failed grant
  leave \<open>lastApiCall\<close> at 0, so a call one millisecond later passes the gate again; a
  feed that answers 500 sets it to 1000000.
\<close>

theorem fetch_throw_leaves_gate_open_witness:
  "gateOpen 1000000 False (limiter initialGateway)
   \<and> fst (fetchOpenSkyData
            (upstreamAt 1000000 (TokenBody (JObj [(''access_token'', JStr ''tok'')])) FeedFetchRejected)
            False (limiter initialGateway)) = None
   \<and> lastApiCall (snd (fetchOpenSkyData
            (upstreamAt 1000000 (TokenBody (JObj [(''access_token'', JStr ''tok'')])) FeedFetchRejected)
            False (limiter initialGateway))) = 0
   \<and> gateOpen 1000001 False (snd (fetchOpenSkyData
            (upstreamAt 1000000 (TokenBody (JObj [(''access_token'', JStr ''tok'')])) FeedFetchRejected)
            False (limiter initialGateway)))
   \<and> lastApiCall (snd (fetchOpenSkyData (upstreamAt 1000000 TokenNotOk (FeedBody None))
            False (limiter initialGateway))) = 0
   \<and> lastApiCall (snd (fetchOpenSkyData
            (upstreamAt 1000000 (TokenBody (JObj [(''access_token'', JStr ''tok'')])) (FeedNotOk 500))
            False (limiter initialGateway))) = 1000000"
proof -
  have o: "gateOpen (clock (upstreamAt 1000000 g f)) False (limiter initialGateway)" for g f
    by (simp add: gateOpen_def upstreamAt_def initialGateway_def)
  have r: "feed1 (upstreamAt 1000000 g FeedFetchRejected) = FeedFetchRejected
           \<or> isl (fst (getAccessToken (tokenClock1 (upstreamAt 1000000 g FeedFetchRejected))
                    (grant1 (upstreamAt 1000000 g FeedFetchRejected))
                    (tokenCache (limiter initialGateway))))" for g
    by (simp add: upstreamAt_def)
  have t: "feed1 (upstreamAt 1000000 TokenNotOk f) = FeedFetchRejected
           \<or> isl (fst (getAccessToken (tokenClock1 (upstreamAt 1000000 TokenNotOk f))
                    (grant1 (upstreamAt 1000000 TokenNotOk f))
                    (tokenCache (limiter initialGateway))))" for f
    by (simp add: upstreamAt_def initialGateway_def getAccessToken_def clearedTokenCache_def)
  have a: "getAccessToken
             (tokenClock1 (upstreamAt 1000000 (TokenBody (JObj [(''access_token'', JStr ''tok'')])) f))
             (grant1 (upstreamAt 1000000 (TokenBody (JObj [(''access_token'', JStr ''tok'')])) f))
             (tokenCache (limiter initialGateway))
           = (Inr (JStr ''tok''), \<lparr>token = JStr ''tok'', expiresAt = 1000000 + TOKEN_EXPIRY_TIME\<rparr>, 1)" for f
    by (simp add: upstreamAt_def initialGateway_def getAccessToken_def clearedTokenCache_def)
  have m: "lastCallOf False (snd (fetchOpenSkyData
             (upstreamAt 1000000 (TokenBody (JObj [(''access_token'', JStr ''tok'')])) (FeedNotOk 500))
             False (limiter initialGateway))) = 1000000"
    using fetch_marks_when_feed_answers [OF o a] by (simp add: upstreamAt_def)
  show ?thesis
    using fetch_throw_leaves_gate_open [OF o r, of "TokenBody (JObj [(''access_token'', JStr ''tok'')])"]
          fetch_throw_leaves_gate_open [OF o t, of "FeedBody None"]
          o [of TokenNotOk FeedFetchRejected] m
    by (simp add: gateOpen_def lastCallOf_def upstreamAt_def initialGateway_def)
qed

section \<open>AircraftRecordCache: results\<close>

lemma toLowerCase_example: "toLowerCase ''ABC123'' = ''abc123''"
  by (simp add: toLowerCase_def lower_char_def)

text \<open>
  Claim C8. If the cache holds a \<open>null\<close> (not found) entry for the key and the entry is
  younger than one hour, the lookup returns \<open>null\<close>, leaves the cache as it is and
  requests nothing from the store.
\<close>

theorem cached_not_found_is_served:
  assumes "map_of (records cache) (toLowerCase s) = Some e"
    and "data e = JNull" and "now - timestamp e < 60 * 60 * 1000"
  shows "getAircraftInfoOnDemand r2Bucket (JStr s) now cache = (Inr JNull, cache, [])"
  using assms
  by (cases r2Bucket)
     (simp_all add: getAircraftInfoOnDemand_def lookupStart_def Let_def
        AIRCRAFT_RECORD_CACHE_MAX_AGE_def)

theorem cached_not_found_is_served_witness:
  "getAircraftInfoOnDemand (Some emptyBucket) (JStr ''ABC123'') (1000 + 59 * 60 * 1000)
       \<lparr>records = [(''abc123'', \<lparr>data = JNull, timestamp = 1000\<rparr>)], maxSize = 1000\<rparr>
     = (Inr JNull, \<lparr>records = [(''abc123'', \<lparr>data = JNull, timestamp = 1000\<rparr>)], maxSize = 1000\<rparr>, [])"
  using cached_not_found_is_served
          [of "\<lparr>records = [(''abc123'', \<lparr>data = JNull, timestamp = 1000\<rparr>)], maxSize = 1000\<rparr>"
              "''ABC123''" "\<lparr>data = JNull, timestamp = 1000\<rparr>" "1000 + 59 * 60 * 1000"
              "Some emptyBucket"]
  by (simp add: toLowerCase_example)

text \<open>At exactly one hour the entry has expired and the store is asked again.\<close>

lemma expired_not_found_refetches:
  "getAircraftInfoOnDemand (Some emptyBucket) (JStr ''ABC123'') (1000 + 60 * 60 * 1000)
       \<lparr>records = [(''abc123'', \<lparr>data = JNull, timestamp = 1000\<rparr>)], maxSize = 1000\<rparr>
     = (Inr JNull,
        \<lparr>records = [(''abc123'', \<lparr>data = JNull, timestamp = 1000 + 60 * 60 * 1000\<rparr>)], maxSize = 1000\<rparr>,
        [''aircraft/abc123.json''])"
  by (simp add: getAircraftInfoOnDemand_def lookupStart_def Let_def toLowerCase_example
        AIRCRAFT_RECORD_CACHE_MAX_AGE_def fetchAircraftRecord_def emptyBucket_def objectKeyOf_def
        object_set_def)

lemma length_object_entries: "length (object_entries obj) = length obj"
proof -
  let ?P = "\<lambda>x. array_index (fst x) \<noteq> None"
  have a: "filter (\<lambda>(k, e). array_index k \<noteq> None) obj = filter ?P obj"
    by (rule filter_cong) auto
  have b: "filter (\<lambda>(k, e). array_index k = None) obj = filter (\<lambda>x. \<not> ?P x) obj"
    by (rule filter_cong) auto
  have "length (filter ?P obj) + length (filter (\<lambda>x. \<not> ?P x) obj) = length obj"
    by (rule sum_length_filter_compl)
  then show ?thesis
    unfolding object_entries_def a b by simp
qed

lemma length_object_keys: "length (object_keys obj) = length obj"
  by (simp add: object_keys_def length_object_entries)

text \<open>
  The eviction of the found path: on a cache whose keys are distinct it removes
  \<open>length div 10\<close> entries, none of them younger than an entry it keeps.
\<close>

lemma foldl_object_delete:
  "foldl (\<lambda>remaining (k, t). object_delete remaining k) obj ks
     = filter (\<lambda>(k, e). k \<notin> fst ` set ks) obj"
proof (induction ks arbitrary: obj)
  case Nil
  show ?case by simp
next
  case (Cons a ks)
  obtain k t where a: "a = (k, t)" by (cases a)
  have "foldl (\<lambda>remaining (k, t). object_delete remaining k) obj (a # ks)
          = filter (\<lambda>(k', e). k' \<notin> fst ` set ks) (object_delete obj k)"
    by (simp add: a Cons.IH)
  also have "\<dots> = filter (\<lambda>(k', e). k' \<notin> fst ` set (a # ks)) obj"
    unfolding object_delete_def filter_filter
    by (rule filter_cong) (auto simp: a)
  finally show ?case .
qed

lemma evictOldest_filter:
  "evictOldest obj = filter (\<lambda>(k, e). k \<notin> fst ` set (sortedByTime obj)) obj"
  by (simp add: evictOldest_def foldl_object_delete)

lemma mset_object_entries: "mset (object_entries obj) = mset obj"
proof -
  let ?P = "\<lambda>x. array_index (fst x) \<noteq> None"
  have a: "filter (\<lambda>(k, e). array_index k \<noteq> None) obj = filter ?P obj"
    by (rule filter_cong) auto
  have b: "filter (\<lambda>(k, e). array_index k = None) obj = filter (\<lambda>x. \<not> ?P x) obj"
    by (rule filter_cong) auto
  show ?thesis
    unfolding object_entries_def a b by simp
qed

text \<open>The timestamp-sorted list of all entries, of which \<open>sortedByTime\<close> is a prefix.\<close>

lemma sortedByTime_prefix:
  "sortedByTime obj
     = take (length obj div 10) (sort_key snd (map (\<lambda>(k, e). (k, timestamp e)) (object_entries obj)))"
  using mset_eq_length [OF mset_object_entries [of obj]]
  by (simp add: sortedByTime_def Let_def)

lemma sorted_all_keys:
  "mset (map fst (sort_key snd (map (\<lambda>(k, e). (k, timestamp e)) (object_entries obj))))
     = mset (map fst obj)"
proof -
  have "map fst (map (\<lambda>(k, e). (k, timestamp e)) xs) = map fst xs" for xs :: record_object
    by (induction xs) auto
  then have "mset (map fst (map (\<lambda>(k, e). (k, timestamp e)) (object_entries obj)))
               = mset (map fst obj)"
    using mset_object_entries [of obj] by (metis mset_map)
  then show ?thesis
    by (metis mset_map mset_sort)
qed

lemma sortedByTime_keys:
  assumes "distinct (map fst obj)"
  shows "distinct (map fst (sortedByTime obj))"
    and "set (map fst (sortedByTime obj)) \<subseteq> set (map fst obj)"
    and "length (sortedByTime obj) = length obj div 10"
proof -
  let ?L = "sort_key snd (map (\<lambda>(k, e). (k, timestamp e)) (object_entries obj))"
  have d: "distinct (map fst ?L)"
    using mset_eq_imp_distinct_iff [OF sorted_all_keys [of obj]] assms by simp
  have s: "set (map fst ?L) = set (map fst obj)"
    using mset_eq_setD [OF sorted_all_keys [of obj]] .
  have l: "length ?L = length obj"
    using mset_eq_length [OF mset_object_entries [of obj]] by simp
  show "distinct (map fst (sortedByTime obj))"
    unfolding sortedByTime_prefix take_map [symmetric] using d by (rule distinct_take)
  show "set (map fst (sortedByTime obj)) \<subseteq> set (map fst obj)"
    unfolding sortedByTime_prefix take_map [symmetric] s [symmetric] by (rule set_take_subset)
  show "length (sortedByTime obj) = length obj div 10"
    unfolding sortedByTime_prefix using l by simp
qed

lemma evictOldest_length:
  assumes "distinct (map fst obj)"
  shows "length (evictOldest obj) = length obj - length obj div 10"
proof -
  let ?K = "set (map fst (sortedByTime obj))"
  have k: "card ?K = length obj div 10"
    using sortedByTime_keys [OF assms] distinct_card [of "map fst (sortedByTime obj)"] by simp
  have "length (filter (\<lambda>x. fst x \<in> ?K) obj) = length (filter (\<lambda>k. k \<in> ?K) (map fst obj))"
    by (simp add: filter_map comp_def)
  also have "\<dots> = card ({k. k \<in> ?K} \<inter> set (map fst obj))"
    using assms by (rule distinct_length_filter)
  also have "{k. k \<in> ?K} \<inter> set (map fst obj) = ?K"
    using sortedByTime_keys(2) [OF assms] by auto
  finally have gone: "length (filter (\<lambda>x. fst x \<in> ?K) obj) = length obj div 10"
    using k by simp
  have "evictOldest obj = filter (\<lambda>x. \<not> fst x \<in> ?K) obj"
    unfolding evictOldest_filter by (rule filter_cong) (simp_all add: case_prod_beta)
  then show ?thesis
    using sum_length_filter_compl [of "\<lambda>x. fst x \<in> ?K" obj] gone by simp
qed

lemma evictOldest_oldest:
  assumes d: "distinct (map fst obj)"
    and gone: "(k, e) \<in> set obj" "(k, e) \<notin> set (evictOldest obj)"
    and kept: "(k', e') \<in> set (evictOldest obj)"
  shows "timestamp e \<le> timestamp e'"
proof -
  let ?h = "\<lambda>(k, e). (k, timestamp e)"
  let ?L = "sort_key snd (map ?h (object_entries obj))"
  let ?n = "length obj div 10"
  have V: "sortedByTime obj = take ?n ?L" by (rule sortedByTime_prefix)
  have setL: "set ?L = ?h ` set obj"
    using mset_eq_setD [OF mset_object_entries [of obj]] by simp
  have "sorted (map snd (take ?n ?L @ drop ?n ?L))"
    by (simp add: sorted_sort_key)
  then have le: "\<forall>x \<in> set (take ?n ?L). \<forall>y \<in> set (drop ?n ?L). snd x \<le> snd y"
    unfolding map_append sorted_append by auto
  \<comment> \<open>the evicted entry is among the first \<open>n\<close>\<close>
  from gone have "k \<in> fst ` set (sortedByTime obj)"
    by (auto simp: evictOldest_filter)
  then obtain t where t: "(k, t) \<in> set (take ?n ?L)" unfolding V by auto
  then have "(k, t) \<in> ?h ` set obj" using setL set_take_subset by fastforce
  then obtain e0 where e0: "(k, e0) \<in> set obj" "t = timestamp e0" by auto
  with d gone(1) have "e0 = e" by (meson eq_key_imp_eq_value)
  with t e0 have x: "(k, timestamp e) \<in> set (take ?n ?L)" by simp
  \<comment> \<open>the kept entry is among the others\<close>
  from kept have k': "(k', e') \<in> set obj" "k' \<notin> fst ` set (take ?n ?L)"
    unfolding V [symmetric] by (auto simp: evictOldest_filter)
  then have "(k', timestamp e') \<in> set ?L" using setL by force
  then have "(k', timestamp e') \<in> set (take ?n ?L) \<union> set (drop ?n ?L)"
    by (metis append_take_drop_id set_append)
  with k'(2) have y: "(k', timestamp e') \<in> set (drop ?n ?L)" by force
  from le x y show ?thesis by fastforce
qed

lemma found_insert_evicts:
  assumes "length (object_keys (records cache)) \<ge> maxSize cache"
    and "map_of (records cache) (toLowerCase s) = None" and "s \<noteq> []"
    and "bucket (objectKeyOf (toLowerCase s)) = R2Parsed info"
  shows "getAircraftInfoOnDemand (Some bucket) (JStr s) now cache
           = (Inr info,
              cache\<lparr>records := evictOldest (records cache)
                                   @ [(toLowerCase s, \<lparr>data = info, timestamp = now\<rparr>)]\<rparr>,
              [objectKeyOf (toLowerCase s)])"
proof -
  have "toLowerCase s \<notin> fst ` set (records cache)"
    using assms(2) by (simp add: map_of_eq_None_iff)
  then have "toLowerCase s \<notin> fst ` set (evictOldest (records cache))"
    by (auto simp: evictOldest_filter)
  then have "map_of (evictOldest (records cache)) (toLowerCase s) = None"
    by (simp add: map_of_eq_None_iff)
  with assms show ?thesis
    by (simp add: getAircraftInfoOnDemand_def lookupStart_def Let_def fetchAircraftRecord_def
          object_set_def)
qed

text \<open>
  Claim C4. The claim is that every insertion of a new key into a cache that holds at
  least \<open>maxSize\<close> keys first evicts the oldest 10% of the entries. The found path does
  so (\<open>found_insert_evicts\<close>); the not-found path, which caches \<open>null\<close> for a key the
  store does not have, inserts without the capacity test: nothing is evicted and the
  cache grows past \<open>maxSize\<close>.
\<close>

theorem notFound_insert_skips_eviction:
  assumes "length (object_keys (records cache)) \<ge> maxSize cache"
    and "map_of (records cache) (toLowerCase s) = None" and "s \<noteq> []"
    and "bucket (objectKeyOf (toLowerCase s)) = R2Absent"
  shows "getAircraftInfoOnDemand (Some bucket) (JStr s) now cache
           = (Inr JNull,
              cache\<lparr>records := records cache @ [(toLowerCase s, \<lparr>data = JNull, timestamp = now\<rparr>)]\<rparr>,
              [objectKeyOf (toLowerCase s)])
         \<and> length (object_keys (records (fst (snd (getAircraftInfoOnDemand (Some bucket) (JStr s) now cache)))))
             = length (object_keys (records cache)) + 1"
  using assms
  by (simp add: getAircraftInfoOnDemand_def lookupStart_def Let_def fetchAircraftRecord_def
        object_set_def length_object_keys)

lemma hex6_head: "i < 1000 \<Longrightarrow> hd (hex6 i) = CHR ''0''"
  by (simp add: hex6_def hexDigit_def)

lemma fullCache_new_key: "map_of (records fullCache) ''ffffff'' = None"
proof -
  have "''ffffff'' \<notin> hex6 ` {0..<1000}"
  proof
    assume "''ffffff'' \<in> hex6 ` {0..<1000}"
    then obtain i where "i < 1000" "hex6 i = ''ffffff''" by auto
    with hex6_head [of i] show False by simp
  qed
  then show ?thesis
    by (simp add: fullCache_def map_of_eq_None_iff image_image)
qed

lemma fullCache_size: "length (object_keys (records fullCache)) = 1000" "maxSize fullCache = 1000"
  by (simp_all add: length_object_keys fullCache_def)

theorem notFound_insert_skips_eviction_witness:
  "length (object_keys (records fullCache)) = 1000 \<and> maxSize fullCache = 1000
   \<and> getAircraftInfoOnDemand (Some emptyBucket) (JStr ''FFFFFF'') 5000 fullCache
       = (Inr JNull,
          fullCache\<lparr>records := records fullCache @ [(''ffffff'', \<lparr>data = JNull, timestamp = 5000\<rparr>)]\<rparr>,
          [''aircraft/ffffff.json''])
   \<and> length (object_keys (records (fst (snd
         (getAircraftInfoOnDemand (Some emptyBucket) (JStr ''FFFFFF'') 5000 fullCache))))) = 1001"
proof -
  have l: "toLowerCase ''FFFFFF'' = ''ffffff''" by (simp add: toLowerCase_def lower_char_def)
  have k: "objectKeyOf ''ffffff'' = ''aircraft/ffffff.json''" by (simp add: objectKeyOf_def)
  show ?thesis
    using notFound_insert_skips_eviction [of fullCache "''FFFFFF''" emptyBucket 5000]
          fullCache_new_key fullCache_size
    by (simp add: l k emptyBucket_def length_object_keys)
qed

section \<open>Fallback snapshot: results\<close>

lemma js_within: "js_lt (js_abs (js_sub a b)) (Num 1) = withinOneDegree b a"
  by (cases a; cases b) (auto simp: withinOneDegree_def)

lemma boundsMatch_amended: "boundsMatch requested stored = amended_boundsSimilar requested stored"
  by (simp add: boundsMatch_def amended_boundsSimilar_def js_within split: option.splits)

lemma fallbackFlights_amended:
  "fallbackFlights bnds fc now =
     (if now - flightsTimestamp fc < 30 * 1000 \<and> amended_boundsSimilar bnds (flightsBounds fc)
      then flights fc else [])"
  by (simp add: fallbackFlights_def Let_def boundsMatch_amended FLIGHTS_CACHE_MAX_AGE_def)

lemma mapFlights_fallback:
  assumes "OPENSKY_CLIENT_ID env \<noteq> []" and "OPENSKY_CLIENT_SECRET env \<noteq> []"
    and "fst (fetchOpenSkyData w (q_mapChanged q = Some ''true'') (limiter g)) = None"
  shows "fst (mapFlights conv parseFloat env q w g)
           = Inr (MapFlights (fallbackFlights (queryBounds parseFloat q) (lastFlightsCache g)
                                (handlerClock w)))"
proof -
  obtain rl where "fetchOpenSkyData w (q_mapChanged q = Some ''true'') (limiter g) = (None, rl)"
    using assms(3) by (cases "fetchOpenSkyData w (q_mapChanged q = Some ''true'') (limiter g)") auto
  with assms(1,2) show ?thesis by (simp add: mapFlights_def Let_def)
qed

text \<open>
  Claim C2, as amended. When the credentials are configured and \<open>fetchOpenSkyData\<close>
  returns \<open>null\<close> (the gate is closed, or the token or the feed request failed), the map
  handler returns the snapshot's flight list if the snapshot is younger than 30 seconds
  and the request carries no bounds, or the snapshot stored no bounds, or each stored
  bound differs from the requested one by less than 1 degree; otherwise it returns the
  empty list.
\<close>

theorem mapFlights_fallback_amended:
  assumes "OPENSKY_CLIENT_ID env \<noteq> []" and "OPENSKY_CLIENT_SECRET env \<noteq> []"
    and "fst (fetchOpenSkyData w (q_mapChanged q = Some ''true'') (limiter g)) = None"
  shows "fst (mapFlights conv parseFloat env q w g)
           = Inr (MapFlights
               (if handlerClock w - flightsTimestamp (lastFlightsCache g) < 30 * 1000
                   \<and> amended_boundsSimilar (queryBounds parseFloat q) (flightsBounds (lastFlightsCache g))
                then flights (lastFlightsCache g) else []))"
  using mapFlights_fallback [OF assms] by (simp add: fallbackFlights_amended)

lemma closedGate: "fetchOpenSkyData (upstreamAt 1020000 TokenNotOk FeedFetchRejected) False
        (limiter snapshotGateway) = (None, limiter snapshotGateway)"
  by (simp add: fetchOpenSkyData_def upstreamAt_def snapshotGateway_def initialGateway_def Let_def)

lemma nearBounds: "queryBounds parseDegrees nearQuery
   = Some \<lparr>north = Num 34.5, south = Num 33.5, east = Num (-110.5), west = Num (-111.5)\<rparr>"
  by (simp add: queryBounds_def nearQuery_def present_def paramOr_def parseDegrees_def)

lemma farBounds: "queryBounds parseDegrees farQuery
   = Some \<lparr>north = Num 36, south = Num 33.5, east = Num (-110.5), west = Num (-111.5)\<rparr>"
  by (simp add: queryBounds_def farQuery_def present_def paramOr_def parseDegrees_def)

lemma noBounds: "queryBounds parseDegrees noBoundsQuery = None"
  by (simp add: queryBounds_def noBoundsQuery_def present_def)

lemma configured_ok: "OPENSKY_CLIENT_ID configured \<noteq> []" "OPENSKY_CLIENT_SECRET configured \<noteq> []"
  by (simp_all add: configured_def)

lemma denied:
  "q_mapChanged q = None \<Longrightarrow>
   fst (fetchOpenSkyData (upstreamAt 1020000 TokenNotOk FeedFetchRejected)
          (q_mapChanged q = Some ''true'') (limiter snapshotGateway)) = None"
  using closedGate by simp

lemma snapshot_fields:
  "flights (lastFlightsCache snapshotGateway) = [exampleFlight]"
  "flightsTimestamp (lastFlightsCache snapshotGateway) = 1000000"
  "flightsBounds (lastFlightsCache snapshotGateway)
     = Some \<lparr>north = Num 34, south = Num 33, east = Num (-111), west = Num (-112)\<rparr>"
  "handlerClock (upstreamAt 1020000 g f) = 1020000"
  by (simp_all add: snapshotGateway_def upstreamAt_def)

text \<open>
  A snapshot 20 seconds old with bounds \<open>{n:34, s:33, e:-111, w:-112}\<close>: a request
  0.5 degrees off in each bound gets the cached flight, one whose north bound is 2
  degrees off gets the empty list.
\<close>

theorem mapFlights_fallback_amended_witness:
  "fst (mapFlights (\<lambda>v. NaN) parseDegrees configured nearQuery
          (upstreamAt 1020000 TokenNotOk FeedFetchRejected) snapshotGateway)
     = Inr (MapFlights [exampleFlight])
   \<and> fst (mapFlights (\<lambda>v. NaN) parseDegrees configured farQuery
          (upstreamAt 1020000 TokenNotOk FeedFetchRejected) snapshotGateway)
     = Inr (MapFlights [])"
proof -
  have n: "q_mapChanged nearQuery = None" and f: "q_mapChanged farQuery = None"
    by (simp_all add: nearQuery_def farQuery_def)
  show ?thesis
    using mapFlights_fallback_amended [OF configured_ok denied [OF n], of "\<lambda>v. NaN" parseDegrees]
          mapFlights_fallback_amended [OF configured_ok denied [OF f], of "\<lambda>v. NaN" parseDegrees]
    by (simp add: nearBounds farBounds snapshot_fields amended_boundsSimilar_def withinOneDegree_def)
qed

text \<open>
  Claim C2 as stated fails: the same snapshot is served to a request that carries no
  bounds at all, where no stored bound is within 1 degree of a requested one.
\<close>

theorem mapFlights_fallback_counterexample:
  "fst (fetchOpenSkyData (upstreamAt 1020000 TokenNotOk FeedFetchRejected) False
          (limiter snapshotGateway)) = None
   \<and> fst (mapFlights (\<lambda>v. NaN) parseDegrees configured noBoundsQuery
          (upstreamAt 1020000 TokenNotOk FeedFetchRejected) snapshotGateway)
     = Inr (MapFlights [exampleFlight])
   \<and> spec_fallbackFlights (queryBounds parseDegrees noBoundsQuery)
        (lastFlightsCache snapshotGateway) 1020000 = []"
proof -
  have n: "q_mapChanged noBoundsQuery = None" by (simp add: noBoundsQuery_def)
  show ?thesis
    using mapFlights_fallback [OF configured_ok denied [OF n], of "\<lambda>v. NaN" parseDegrees] closedGate
    by (simp add: noBounds snapshot_fields fallbackFlights_amended amended_boundsSimilar_def
          spec_fallbackFlights_def spec_boundsSimilar_def)
qed

section \<open>RegionStore: results\<close>

lemma postRegion_numeric:
  "postRegion conv (Some (regionBody lat lon r)) region =
     (if lat < -90 \<or> lat > 90 \<or> lon < -180 \<or> lon > 180
      then (RegionRejected ''Invalid coordinates'', region)
      else if r = 0 then (RegionUpdated (regionBody lat lon 3), regionBody lat lon 3)
      else if r < 0 \<or> r > 100 then (RegionRejected ''Invalid radius'', region)
      else (RegionUpdated (regionBody lat lon r), regionBody lat lon r))"
  by (simp add: postRegion_def regionBody_def Let_def)

lemma postRegion_rejects_violation:
  assumes "\<not> regionInvariant lat lon r" and "r \<noteq> 0"
  shows "statusOf (fst (postRegion conv (Some (regionBody lat lon r)) region)) = 400
         \<and> snd (postRegion conv (Some (regionBody lat lon r)) region) = region"
  using assms by (auto simp: postRegion_numeric regionInvariant_def statusOf_def)

lemma postRegion_accepts_valid:
  assumes "regionInvariant lat lon r"
  shows "postRegion conv (Some (regionBody lat lon r)) region
           = (RegionUpdated (regionBody lat lon r), regionBody lat lon r)"
  using assms by (auto simp: postRegion_numeric regionInvariant_def)

lemma postRegion_lat_91:
  "statusOf (fst (postRegion conv (Some (regionBody 91 0 3)) region)) = 400
   \<and> snd (postRegion conv (Some (regionBody 91 0 3)) region) = region"
  by (simp add: postRegion_numeric statusOf_def)

lemma postRegion_rejection_keeps_region:
  "fst (postRegion conv body region) = RegionRejected m \<Longrightarrow> snd (postRegion conv body region) = region"
  by (auto simp: postRegion_def Let_def split: option.splits sum.splits if_splits)

text \<open>
  Claim C3. The claim is that every body that violates the Region invariant is answered
  with 400 and leaves the region unchanged, a radius of 0 included. The code rejects
  out-of-range coordinates and radii below 0 or above 100
  (\<open>postRegion_rejects_violation\<close>, \<open>postRegion_lat_91\<close>), but \<open>radiusMiles || 3\<close>
  replaces a radius of 0 by the default before the test \<open>radius <= 0\<close>: the body is
  accepted and the region is replaced, with radius 3.
\<close>

theorem postRegion_zero_radius_accepted:
  "\<not> regionInvariant 33 (-111) 0
   \<and> postRegion conv (Some (regionBody 33 (-111) 0)) region
       = (RegionUpdated (regionBody 33 (-111) 3), regionBody 33 (-111) 3)
   \<and> statusOf (fst (postRegion conv (Some (regionBody 33 (-111) 0)) region)) = 200"
  by (simp add: postRegion_numeric regionInvariant_def statusOf_def)

theorem postRegion_zero_radius_accepted_witness:
  "statusOf (fst (postRegion (\<lambda>v. NaN) (Some (regionBody 33 (-111) 0)) DEFAULT_REGION)) = 200
   \<and> snd (postRegion (\<lambda>v. NaN) (Some (regionBody 33 (-111) 0)) DEFAULT_REGION) \<noteq> DEFAULT_REGION
   \<and> snd (postRegion (\<lambda>v. NaN) (Some (regionBody 33 (-111) 0)) DEFAULT_REGION) = regionBody 33 (-111) 3"
  using postRegion_zero_radius_accepted [of "\<lambda>v. NaN" DEFAULT_REGION]
  by (simp add: DEFAULT_REGION_def regionBody_def statusOf_def)

section \<open>Flight scans: results\<close>

lemma setIfTruthy_position:
  "(\<And>v d. latitude (assign v d) = latitude d) \<Longrightarrow>
     latitude (setIfTruthy info k assign fd) = latitude fd"
  "(\<And>v d. longitude (assign v d) = longitude d) \<Longrightarrow>
     longitude (setIfTruthy info k assign fd) = longitude fd"
  by (simp_all add: setIfTruthy_def split: option.splits)

lemma enrich_position:
  "latitude (enrich info fd) = latitude fd" "longitude (enrich info fd) = longitude fd"
  by (simp_all add: enrich_def Let_def setIfTruthy_position)

lemma makeFlightData_position:
  "latitude (makeFlightData flight ai isIn) = idx flight 6"
  "longitude (makeFlightData flight ai isIn) = idx flight 5"
  by (simp_all add: makeFlightData_def)

lemma zeroPosition_falsy: "zeroPosition flight \<Longrightarrow> \<not> (truthy (idx flight 6) \<and> truthy (idx flight 5))"
  by (auto simp: zeroPosition_def)

lemma truthy_nonzero: "truthy v \<Longrightarrow> v \<noteq> JNum (Num 0)"
  by auto

lemma processFlights_skips_zero:
  "processFlights conv b now region cache (filter (\<lambda>f. \<not> zeroPosition f) states)
     = processFlights conv b now region cache states"
proof (induction states)
  case Nil
  show ?case by simp
next
  case (Cons flight rest)
  show ?case
  proof (cases "zeroPosition flight")
    case True
    then show ?thesis using Cons zeroPosition_falsy [OF True] by (auto simp add: Let_def)
  next
    case False
    then have "processFlights conv b now region cache (filter (\<lambda>f. \<not> zeroPosition f) (flight # rest))
                 = processFlights conv b now region cache (flight # filter (\<lambda>f. \<not> zeroPosition f) rest)"
      by simp
    also have "\<dots> = processFlights conv b now region cache (flight # rest)"
      unfolding processFlights.simps Cons.IH by (rule refl)
    finally show ?thesis .
  qed
qed

lemma processFlights_position:
  "processFlights conv b now region cache states = (Inr (Some fd), c, gets) \<Longrightarrow>
     truthy (latitude fd) \<and> truthy (longitude fd)"
proof (induction states)
  case Nil
  then show ?case by simp
next
  case (Cons flight rest)
  then show ?case
    by (auto simp: Let_def enrich_position makeFlightData_position
             split: if_splits sum.splits prod.splits)
qed

lemma firstPass_skips_zero:
  "firstPass conv m bnds region selected (filter (\<lambda>f. \<not> zeroPosition f) states)
     = firstPass conv m bnds region selected states"
proof (induction states arbitrary: selected)
  case Nil
  show ?case by simp
next
  case (Cons flight rest)
  show ?case
  proof (cases "zeroPosition flight")
    case True
    then show ?thesis using Cons zeroPosition_falsy [OF True] by (auto simp add: Let_def)
  next
    case False
    then have "firstPass conv m bnds region selected (filter (\<lambda>f. \<not> zeroPosition f) (flight # rest))
                 = firstPass conv m bnds region selected (flight # filter (\<lambda>f. \<not> zeroPosition f) rest)"
      by simp
    also have "\<dots> = firstPass conv m bnds region selected (flight # rest)"
      unfolding firstPass.simps Cons.IH by (rule refl)
    finally show ?thesis .
  qed
qed

lemma firstPass_position:
  "firstPass conv m bnds region selected states = Inr out \<Longrightarrow>
   list_all (\<lambda>fd. truthy (latitude fd) \<and> truthy (longitude fd)) selected \<Longrightarrow>
   list_all (\<lambda>fd. truthy (latitude fd) \<and> truthy (longitude fd)) out"
proof (induction states arbitrary: selected)
  case Nil
  then show ?case by simp
next
  case (Cons flight rest)
  show ?case
  proof (cases "idx flight 8 \<noteq> JBool True \<and> truthy (idx flight 6) \<and> truthy (idx flight 5)")
    case False
    with Cons.prems have "firstPass conv m bnds region selected rest = Inr out"
      by (auto simp: Let_def split: if_splits)
    from Cons.IH [OF this Cons.prems(2)] show ?thesis .
  next
    case True
    obtain isIn where isIn: "isPointInRegion conv (idx flight 6) (idx flight 5) region = Inr isIn"
      using Cons.prems(1) True by (auto simp: Let_def split: sum.splits)
    show ?thesis
    proof (cases "if bnds \<noteq> None then isPointInBounds conv (idx flight 6) (idx flight 5) bnds else isIn")
      case False
      with Cons.prems True isIn have "firstPass conv m bnds region selected rest = Inr out"
        by (auto simp: Let_def split: if_splits)
      from Cons.IH [OF this Cons.prems(2)] show ?thesis .
    next
      case inArea: True
      obtain ai where ai: "getAirportInfo (idx flight 0) (idx flight 1) = Inr ai"
        using Cons.prems(1) True isIn inArea by (auto simp: Let_def split: sum.splits if_splits)
      let ?sel = "selected @ [makeFlightData flight ai isIn]"
      have sel: "list_all (\<lambda>fd. truthy (latitude fd) \<and> truthy (longitude fd)) ?sel"
        using Cons.prems(2) True by (simp add: makeFlightData_position)
      show ?thesis
      proof (cases "length ?sel \<ge> m")
        case True
        with Cons.prems(1) \<open>idx flight 8 \<noteq> JBool True \<and> truthy (idx flight 6) \<and> truthy (idx flight 5)\<close>
          isIn inArea ai have "out = ?sel"
          by (auto simp: Let_def split: if_splits)
        with sel show ?thesis by simp
      next
        case False
        with Cons.prems(1) \<open>idx flight 8 \<noteq> JBool True \<and> truthy (idx flight 6) \<and> truthy (idx flight 5)\<close>
          isIn inArea ai have "firstPass conv m bnds region ?sel rest = Inr out"
          by (auto simp: Let_def split: if_splits)
        from Cons.IH [OF this sel] show ?thesis .
      qed
    qed
  qed
qed

lemma enrichAll_position:
  "enrichAll infoMap fds = Inr out \<Longrightarrow>
   list_all (\<lambda>fd. truthy (latitude fd) \<and> truthy (longitude fd)) fds \<Longrightarrow>
   list_all (\<lambda>fd. truthy (latitude fd) \<and> truthy (longitude fd)) out"
proof (induction fds arbitrary: out)
  case Nil
  then show ?case by simp
next
  case (Cons fd rest)
  then show ?case
    by (auto simp: Let_def enrich_position split: sum.splits)
qed

lemma processMultipleFlights_position:
  assumes "processMultipleFlights conv states m bnds b now region cache = (Inr out, c, gets)"
  shows "list_all (\<lambda>fd. truthy (latitude fd) \<and> truthy (longitude fd)) out"
proof -
  obtain sel where sel: "firstPass conv m bnds region [] states = Inr sel"
    using assms by (auto simp: processMultipleFlights_def split: sum.splits)
  have p: "list_all (\<lambda>fd. truthy (latitude fd) \<and> truthy (longitude fd)) sel"
    using firstPass_position [OF sel] by simp
  have "out = sel \<or> (\<exists>infoMap. enrichAll infoMap sel = Inr out)"
    using assms sel
    by (auto simp: processMultipleFlights_def Let_def
             split: option.splits if_splits prod.splits)
  with p show ?thesis using enrichAll_position by blast
qed


text \<open>
  Claim C9. In the single-flight scan and in the multi-flight scan a report whose
  latitude or longitude is exactly 0 is skipped: both scans give the same result as on
  the reports without it, and no flight they return has latitude or longitude 0.
\<close>

theorem zero_position_is_skipped:
  "processFlights conv b now region cache states
     = processFlights conv b now region cache (filter (\<lambda>f. \<not> zeroPosition f) states)
   \<and> processMultipleFlights conv states m bnds b now region cache
     = processMultipleFlights conv (filter (\<lambda>f. \<not> zeroPosition f) states) m bnds b now region cache
   \<and> (\<forall>fd c gets. processFlights conv b now region cache states = (Inr (Some fd), c, gets)
         \<longrightarrow> latitude fd \<noteq> JNum (Num 0) \<and> longitude fd \<noteq> JNum (Num 0))
   \<and> (\<forall>out c gets. processMultipleFlights conv states m bnds b now region cache = (Inr out, c, gets)
         \<longrightarrow> list_all (\<lambda>fd. latitude fd \<noteq> JNum (Num 0) \<and> longitude fd \<noteq> JNum (Num 0)) out)"
proof -
  have a: "processFlights conv b now region cache states
             = processFlights conv b now region cache (filter (\<lambda>f. \<not> zeroPosition f) states)"
    by (simp add: processFlights_skips_zero)
  have b: "processMultipleFlights conv states m bnds b now region cache
             = processMultipleFlights conv (filter (\<lambda>f. \<not> zeroPosition f) states) m bnds b now region cache"
    by (simp add: processMultipleFlights_def firstPass_skips_zero)
  have c: "latitude fd \<noteq> JNum (Num 0) \<and> longitude fd \<noteq> JNum (Num 0)"
    if "processFlights conv b now region cache states = (Inr (Some fd), c, gets)" for fd c gets
    using processFlights_position [OF that] truthy_nonzero by blast
  have d: "list_all (\<lambda>fd. latitude fd \<noteq> JNum (Num 0) \<and> longitude fd \<noteq> JNum (Num 0)) out"
    if "processMultipleFlights conv states m bnds b now region cache = (Inr out, c, gets)" for out c gets
    using processMultipleFlights_position [OF that] truthy_nonzero
    by (auto simp: list_all_iff)
  from a b c d show ?thesis by blast
qed

text \<open>
  A report on the equator at the center of the region, and inside the requested bounds,
  is returned by neither scan; the same for a report on the prime meridian.
\<close>

theorem zero_position_is_skipped_witness:
  "isPointInRegion (\<lambda>v. NaN) (idx equatorFlight 6) (idx equatorFlight 5) (regionBody 0 (-78.5) 3) = Inr True
   \<and> fst (processFlights (\<lambda>v. NaN) None 1000000 (regionBody 0 (-78.5) 3) initialRecordCache
            [equatorFlight]) = Inr None
   \<and> isPointInBounds (\<lambda>v. NaN) (idx equatorFlight 6) (idx equatorFlight 5)
        (Some \<lparr>north = Num 1, south = Num (-1), east = Num (-78), west = Num (-79)\<rparr>)
   \<and> fst (processMultipleFlights (\<lambda>v. NaN) [equatorFlight] 50
            (Some \<lparr>north = Num 1, south = Num (-1), east = Num (-78), west = Num (-79)\<rparr>)
            None 1000000 (regionBody 0 (-78.5) 3) initialRecordCache) = Inr []
   \<and> isPointInRegion (\<lambda>v. NaN) (idx meridianFlight 6) (idx meridianFlight 5) (regionBody 51.5 0 3) = Inr True
   \<and> fst (processFlights (\<lambda>v. NaN) None 1000000 (regionBody 51.5 0 3) initialRecordCache
            [meridianFlight]) = Inr None
   \<and> fst (processMultipleFlights (\<lambda>v. NaN) [meridianFlight] 50 None
            None 1000000 (regionBody 51.5 0 3) initialRecordCache) = Inr []"
proof -
  let ?c = "\<lambda>v::jsval. NaN"
  let ?be = "Some \<lparr>north = Num 1, south = Num (-1), east = Num (-78), west = Num (-79)\<rparr>"
  have e: "filter (\<lambda>f. \<not> zeroPosition f) [equatorFlight] = []"
    by (simp add: zeroPosition_def equatorFlight_def idx_def)
  have m: "filter (\<lambda>f. \<not> zeroPosition f) [meridianFlight] = []"
    by (simp add: zeroPosition_def meridianFlight_def idx_def)
  have ie: "idx equatorFlight 6 = JNum (Num 0)" "idx equatorFlight 5 = JNum (Num (-78.5))"
    by (simp_all add: equatorFlight_def idx_def)
  have im: "idx meridianFlight 6 = JNum (Num 51.5)" "idx meridianFlight 5 = JNum (Num 0)"
    by (simp_all add: meridianFlight_def idx_def)
  have r1: "isPointInRegion ?c (idx equatorFlight 6) (idx equatorFlight 5) (regionBody 0 (-78.5) 3) = Inr True"
    unfolding ie by (simp add: isPointInRegion_def regionBody_def calculateDistance_same)
  have r2: "isPointInRegion ?c (idx meridianFlight 6) (idx meridianFlight 5) (regionBody 51.5 0 3) = Inr True"
    unfolding im by (simp add: isPointInRegion_def regionBody_def calculateDistance_same)
  have b1: "isPointInBounds ?c (idx equatorFlight 6) (idx equatorFlight 5) ?be"
    unfolding ie by (simp add: isPointInBounds_def)
  have none: "processMultipleFlights ?c [] 50 bnds None 1000000 region initialRecordCache
                = (Inr [], initialRecordCache, [])" for bnds region
    by (simp add: processMultipleFlights_def)
  note ze = zero_position_is_skipped
              [of ?c None 1000000 "regionBody 0 (-78.5) 3" initialRecordCache "[equatorFlight]" 50 ?be]
  note zm = zero_position_is_skipped
              [of ?c None 1000000 "regionBody 51.5 0 3" initialRecordCache "[meridianFlight]" 50 None]
  have p1: "processFlights ?c None 1000000 (regionBody 0 (-78.5) 3) initialRecordCache [equatorFlight]
              = (Inr None, initialRecordCache, [])"
    using ze [THEN conjunct1] by (simp only: e processFlights.simps)
  have p2: "processMultipleFlights ?c [equatorFlight] 50 ?be None 1000000 (regionBody 0 (-78.5) 3)
              initialRecordCache = (Inr [], initialRecordCache, [])"
    using ze [THEN conjunct2, THEN conjunct1] by (simp only: e none)
  have p3: "processFlights ?c None 1000000 (regionBody 51.5 0 3) initialRecordCache [meridianFlight]
              = (Inr None, initialRecordCache, [])"
    using zm [THEN conjunct1] by (simp only: m processFlights.simps)
  have p4: "processMultipleFlights ?c [meridianFlight] 50 None None 1000000 (regionBody 51.5 0 3)
              initialRecordCache = (Inr [], initialRecordCache, [])"
    using zm [THEN conjunct2, THEN conjunct1] by (simp only: m none)
  show ?thesis
    unfolding p1 p2 p3 p4 r1 r2 using b1 by simp
qed

end
